theory Spec2Isabelle
  imports Main "HOL-Library.Multiset"
begin

section \<open>caljson: events of one calendar day from an iCalendar feed\<close>

text \<open>
  The program is one HTTP handler (\<^verbatim>\<open>caljsonHandler\<close>) around two functions,
  \<^verbatim>\<open>parseEvent\<close> and \<^verbatim>\<open>parseICalTime\<close>. They exist in two variants: \<^verbatim>\<open>src/main.go\<close>
  (net/http) and \<^verbatim>\<open>src/unnamed/part_000\<close> (gin). Definitions without a suffix embed
  \<^verbatim>\<open>src/main.go\<close>; the suffix \<open>_part000\<close> marks the other variant.

  The Go standard library (package \<^verbatim>\<open>time\<close>, \<^verbatim>\<open>sort.Slice\<close>) and the iCalendar library
  (\<^verbatim>\<open>golang-ical\<close>) are not part of the repository. The subsections named after
  their packages model the part of them that the program calls, from their
  documentation; the ambient state (the process's local zone, the zone database) is
  a parameter \<open>env\<close>.
\<close>

subsection \<open>Package time: locations, instants\<close>

text \<open>
  A \<^verbatim>\<open>*time.Location\<close> is a name and a lookup from a Unix second to the zone in force
  there: its offset east of UTC in seconds, and the interval \<open>[start, end)\<close> of Unix
  seconds on which that offset holds.
\<close>

datatype location = Loc (locName: string) (lookup: "int \<Rightarrow> int \<times> int \<times> int")

definition alpha :: int where "alpha = - (2 ^ 63)"
definition omega :: int where "omega = 2 ^ 63 - 1"

definition UTC :: location where
  "UTC = Loc ''UTC'' (\<lambda>_. (0, alpha, omega))"

text \<open>\<^verbatim>\<open>time.FixedZone(name, offset)\<close>: one offset for all time.\<close>

definition FixedZone :: "string \<Rightarrow> int \<Rightarrow> location" where
  "FixedZone name offset = Loc name (\<lambda>_. (offset, alpha, omega))"

text \<open>
  A \<^verbatim>\<open>time.Time\<close> is an instant (here: nanoseconds since the Unix epoch) and the
  location it is displayed in. \<^verbatim>\<open>Before\<close> and \<^verbatim>\<open>After\<close> compare instants only;
  \<^verbatim>\<open>In\<close> changes the location only; \<^verbatim>\<open>Add\<close> moves the instant by a duration in
  nanoseconds. The range of \<^verbatim>\<open>time.Time\<close> is far larger than the four-digit years
  this program can parse, so \<^verbatim>\<open>Add\<close> is modelled on \<open>int\<close> without overflow.
\<close>

record time =
  unixNano :: int
  tloc :: location

definition Before :: "time \<Rightarrow> time \<Rightarrow> bool" where
  "Before t u = (unixNano t < unixNano u)"

definition After :: "time \<Rightarrow> time \<Rightarrow> bool" where
  "After t u = (unixNano t > unixNano u)"

definition In :: "time \<Rightarrow> location \<Rightarrow> time" where
  "In t l = t\<lparr>tloc := l\<rparr>"

definition Add :: "time \<Rightarrow> int \<Rightarrow> time" where
  "Add t d = t\<lparr>unixNano := unixNano t + d\<rparr>"

definition Hour :: int where "Hour = 3600 * 1000000000"

subsection \<open>Package time: civil dates\<close>

definition isLeap :: "int \<Rightarrow> bool" where
  "isLeap year = (year mod 4 = 0 \<and> (year mod 100 \<noteq> 0 \<or> year mod 400 = 0))"

definition daysIn :: "int \<Rightarrow> int \<Rightarrow> int" where
  "daysIn month year =
     (if month = 2 then (if isLeap year then 29 else 28)
      else if month = 4 \<or> month = 6 \<or> month = 9 \<or> month = 11 then 30
      else 31)"

text \<open>Days of a non-leap year before the first of the month (\<open>1 \<le> month \<le> 12\<close>).\<close>

definition daysBefore :: "int \<Rightarrow> int" where
  "daysBefore month = [0, 31, 59, 90, 120, 151, 181, 212, 243, 273, 304, 334] ! nat (month - 1)"

text \<open>
  Days from 1970-01-01 to the given proleptic Gregorian date (negative before 1970).
  \<open>365 * (year - 1970)\<close> plus the leap days of the years before \<open>year\<close>, counted from
  year 1 (477 of them lie before 1970).
\<close>

definition daysSinceEpoch :: "int \<Rightarrow> int \<Rightarrow> int \<Rightarrow> int" where
  "daysSinceEpoch year month day =
     365 * (year - 1970)
     + ((year - 1) div 4 - (year - 1) div 100 + (year - 1) div 400 - 477)
     + daysBefore month
     + (if isLeap year \<and> month \<ge> 3 then 1 else 0)
     + (day - 1)"

text \<open>
  \<^verbatim>\<open>time.Date(year, month, day, hour, min, sec, nsec, loc)\<close> for fields that are in
  range (every caller here passes such fields): the wall-clock reading is taken as if
  it were UTC, the zone in force at that second is looked up, and its offset is
  subtracted; if the result falls outside the interval of that zone, the offset is
  looked up again at the result.
\<close>

definition Date :: "int \<Rightarrow> int \<Rightarrow> int \<Rightarrow> int \<Rightarrow> int \<Rightarrow> int \<Rightarrow> int \<Rightarrow> location \<Rightarrow> time" where
  "Date year month day hour minute sec nsec l =
     (let unix = daysSinceEpoch year month day * 86400 + hour * 3600 + minute * 60 + sec;
          (offset, start, end) = lookup l unix;
          unix' = (if offset \<noteq> 0
                   then (let utc = unix - offset;
                             offset' = (if utc < start \<or> utc \<ge> end
                                        then fst (lookup l utc) else offset)
                         in unix - offset')
                   else unix)
      in \<lparr>unixNano = unix' * 1000000000 + nsec, tloc = l\<rparr>)"

subsection \<open>Package time: parsing\<close>

datatype error =
    MissingDTSTART
  | ParseError string string
  | UnknownTimeZone string
  | UnmodelledLayout string

text \<open>
  \<open>MissingDTSTART\<close> is \<^verbatim>\<open>fmt.Errorf("event missing DTSTART")\<close>. \<open>ParseError layout value\<close>
  stands for every \<^verbatim>\<open>*time.ParseError\<close> (the message is not kept), \<open>UnknownTimeZone\<close>
  for every error of \<^verbatim>\<open>time.LoadLocation\<close>. \<open>UnmodelledLayout\<close> is not a Go error: it
  marks a layout string outside the table \<open>layoutChunks\<close> below.
\<close>

definition isDigit :: "string \<Rightarrow> nat \<Rightarrow> bool" where
  "isDigit s i = (i < length s \<and> s ! i \<in> set ''0123456789'')"

definition digit :: "char \<Rightarrow> int" where
  "digit c = of_char c - 48"

text \<open>
  \<^verbatim>\<open>getnum(s, fixed)\<close>: one or two leading digits; with \<open>fixed\<close>, exactly two.
\<close>

definition getnum :: "string \<Rightarrow> bool \<Rightarrow> (int \<times> string) option" where
  "getnum s fixed =
     (if \<not> isDigit s 0 then None
      else if \<not> isDigit s 1 then (if fixed then None else Some (digit (s ! 0), drop 1 s))
      else Some (digit (s ! 0) * 10 + digit (s ! 1), drop 2 s))"

text \<open>The value of a string of digits; \<open>None\<close> if another character occurs.\<close>

fun atoiAcc :: "int \<Rightarrow> string \<Rightarrow> int option" where
  "atoiAcc acc [] = Some acc"
| "atoiAcc acc (c # cs) =
     (if c \<in> set ''0123456789'' then atoiAcc (acc * 10 + digit c) cs else None)"

definition atoi :: "string \<Rightarrow> int option" where
  "atoi s = (if s = [] then None else atoiAcc 0 s)"

text \<open>
  The pieces that \<^verbatim>\<open>nextStdChunk\<close> cuts a layout into. Only the pieces that occur in
  the layouts this program parses with are modelled.
\<close>

datatype chunk =
    stdLongYear
  | stdZeroMonth
  | stdZeroDay
  | stdHour
  | stdZeroMinute
  | stdZeroSecond
  | Lit char

definition layoutChunks :: "string \<Rightarrow> chunk list option" where
  "layoutChunks layout =
     (if layout = ''20060102'' then Some [stdLongYear, stdZeroMonth, stdZeroDay]
      else if layout = ''20060102T150405Z'' then
        Some [stdLongYear, stdZeroMonth, stdZeroDay, Lit (CHR ''T''),
              stdHour, stdZeroMinute, stdZeroSecond, Lit (CHR ''Z'')]
      else if layout = ''20060102T150405'' then
        Some [stdLongYear, stdZeroMonth, stdZeroDay, Lit (CHR ''T''),
              stdHour, stdZeroMinute, stdZeroSecond]
      else None)"

record fields =
  f_year :: int
  f_month :: int
  f_day :: int
  f_hour :: int
  f_min :: int
  f_sec :: int
  f_nsec :: int

definition fields0 :: fields where
  "fields0 = \<lparr>f_year = 0, f_month = - 1, f_day = - 1, f_hour = 0, f_min = 0, f_sec = 0, f_nsec = 0\<rparr>"

text \<open>
  A fractional second in the value where the layout has none, directly after the
  seconds: a period or comma and digits. All the digits are consumed, the first nine
  give the nanoseconds.
\<close>

definition fracSecond :: "string \<Rightarrow> int \<times> string" where
  "fracSecond v =
     (if length v \<ge> 2 \<and> (v ! 0 = CHR ''.'' \<or> v ! 0 = CHR '','') \<and> isDigit v 1
      then (let ds = takeWhile (\<lambda>c. c \<in> set ''0123456789'') (tl v);
                used = take 9 ds
            in ((case atoi used of None \<Rightarrow> 0 | Some n \<Rightarrow> n) * 10 ^ (9 - length used),
                drop (1 + length ds) v))
      else (0, v))"

text \<open>
  The parsing loop of \<^verbatim>\<open>time.Parse\<close>: one step per chunk, \<open>None\<close> for every error
  (a literal that does not match, a missing digit, a field out of range, text left
  over at the end).
\<close>

fun parseChunks :: "chunk list \<Rightarrow> string \<Rightarrow> fields \<Rightarrow> fields option" where
  "parseChunks [] v f = (if v = [] then Some f else None)"
| "parseChunks (Lit c # cs) v f =
     (case v of [] \<Rightarrow> None | x # v' \<Rightarrow> if x = c then parseChunks cs v' f else None)"
| "parseChunks (stdLongYear # cs) v f =
     (if length v < 4 \<or> \<not> isDigit v 0 then None
      else (case atoi (take 4 v) of None \<Rightarrow> None
            | Some y \<Rightarrow> parseChunks cs (drop 4 v) (f\<lparr>f_year := y\<rparr>)))"
| "parseChunks (stdZeroMonth # cs) v f =
     (case getnum v True of None \<Rightarrow> None
      | Some (m, v') \<Rightarrow> if m \<le> 0 \<or> 12 < m then None else parseChunks cs v' (f\<lparr>f_month := m\<rparr>))"
| "parseChunks (stdZeroDay # cs) v f =
     (case getnum v True of None \<Rightarrow> None
      | Some (d, v') \<Rightarrow> parseChunks cs v' (f\<lparr>f_day := d\<rparr>))"
| "parseChunks (stdHour # cs) v f =
     (case getnum v False of None \<Rightarrow> None
      | Some (h, v') \<Rightarrow> if h < 0 \<or> 24 \<le> h then None else parseChunks cs v' (f\<lparr>f_hour := h\<rparr>))"
| "parseChunks (stdZeroMinute # cs) v f =
     (case getnum v True of None \<Rightarrow> None
      | Some (m, v') \<Rightarrow> if m < 0 \<or> 60 \<le> m then None else parseChunks cs v' (f\<lparr>f_min := m\<rparr>))"
| "parseChunks (stdZeroSecond # cs) v f =
     (case getnum v True of None \<Rightarrow> None
      | Some (s, v') \<Rightarrow>
          if s < 0 \<or> 60 \<le> s then None
          else (let (ns, v'') = fracSecond v'
                in parseChunks cs v'' (f\<lparr>f_sec := s, f_nsec := ns\<rparr>)))"

text \<open>
  \<^verbatim>\<open>time.ParseInLocation(layout, value, loc)\<close>: the fields are parsed, a month or day
  the layout does not mention defaults to 1, the day is checked against the month,
  and, none of the layouts here carrying a zone, the reading is wall-clock time in
  \<open>loc\<close>. \<^verbatim>\<open>time.Parse(layout, value)\<close> is the same with \<open>UTC\<close>.
\<close>

definition ParseInLocation :: "string \<Rightarrow> string \<Rightarrow> location \<Rightarrow> error + time" where
  "ParseInLocation layout v l =
     (case layoutChunks layout of
        None \<Rightarrow> Inl (UnmodelledLayout layout)
      | Some cs \<Rightarrow>
         (case parseChunks cs v fields0 of
            None \<Rightarrow> Inl (ParseError layout v)
          | Some f \<Rightarrow>
             (let month = (if f_month f < 0 then 1 else f_month f);
                  day = (if f_day f < 0 then 1 else f_day f)
              in if day < 1 \<or> day > daysIn month (f_year f) then Inl (ParseError layout v)
                 else Inr (Date (f_year f) month day (f_hour f) (f_min f) (f_sec f) (f_nsec f) l))))"

definition Parse :: "string \<Rightarrow> string \<Rightarrow> error + time" where
  "Parse layout v = ParseInLocation layout v UTC"

text \<open>
  The ambient state of the process: \<^verbatim>\<open>time.Local\<close>, and the zone database behind
  \<^verbatim>\<open>time.LoadLocation\<close> (\<open>None\<close> for a name it rejects or does not find).
\<close>

record env =
  Local :: location
  zoneinfo :: "string \<Rightarrow> location option"

definition LoadLocation :: "env \<Rightarrow> string \<Rightarrow> error + location" where
  "LoadLocation e name =
     (if name = '''' \<or> name = ''UTC'' then Inr UTC
      else if name = ''Local'' then Inr (Local e)
      else (case zoneinfo e name of
              None \<Rightarrow> Inl (UnknownTimeZone name)
            | Some l \<Rightarrow> Inr l))"

definition HasSuffix :: "string \<Rightarrow> string \<Rightarrow> bool" where
  "HasSuffix s suffix =
     (length s \<ge> length suffix \<and> drop (length s - length suffix) s = suffix)"

subsection \<open>Package sort\<close>

text \<open>
  \<^verbatim>\<open>sort.Slice(x, less)\<close> sorts in place and is not stable. In current Go releases a
  slice of up to twelve elements is sorted by the insertion sort below: each element
  in turn is swapped towards the front while the comparison \<open>lt\<close> holds between it
  and its left neighbour. Longer slices, and older releases, go through other
  algorithms of the library, whose result is again a permutation ordered by \<open>lt\<close>
  but may order equal keys differently; the model uses the insertion sort for every
  length. The sorted prefix is kept reversed, nearest neighbour first.
\<close>

fun sinkLess :: "('a \<Rightarrow> 'a \<Rightarrow> bool) \<Rightarrow> 'a \<Rightarrow> 'a list \<Rightarrow> 'a list" where
  "sinkLess lt x [] = [x]"
| "sinkLess lt x (y # ys) = (if lt x y then y # sinkLess lt x ys else x # y # ys)"

fun insertionSortLoop :: "('a \<Rightarrow> 'a \<Rightarrow> bool) \<Rightarrow> 'a list \<Rightarrow> 'a list \<Rightarrow> 'a list" where
  "insertionSortLoop lt pre [] = rev pre"
| "insertionSortLoop lt pre (x # xs) = insertionSortLoop lt (sinkLess lt x pre) xs"

definition sortSlice :: "('a \<Rightarrow> 'a \<Rightarrow> bool) \<Rightarrow> 'a list \<Rightarrow> 'a list" where
  "sortSlice lt xs = insertionSortLoop lt [] xs"

subsection \<open>Package golang-ical: components and properties\<close>

text \<open>
  An \<^verbatim>\<open>ics.IANAProperty\<close> is a token, a value and a Go map from parameter names to
  lists of values. A \<^verbatim>\<open>*ics.VEvent\<close> holds a list of properties; \<^verbatim>\<open>GetProperty\<close>
  returns the first one with the token asked for, or \<^verbatim>\<open>nil\<close> (here \<open>None\<close>).
  A calendar's other components (time zones, to-dos, ...) are \<open>OtherComponent\<close>.
\<close>

record property =
  IANAToken :: string
  ICalParameters :: "string \<rightharpoonup> string list"
  Value :: string

record vevent =
  Properties :: "property list"

datatype component = VEvent vevent | OtherComponent

definition ComponentPropertyDtStart :: string where "ComponentPropertyDtStart = ''DTSTART''"
definition ComponentPropertyDtEnd :: string where "ComponentPropertyDtEnd = ''DTEND''"
definition ComponentPropertySummary :: string where "ComponentPropertySummary = ''SUMMARY''"
definition ComponentPropertyDescription :: string where "ComponentPropertyDescription = ''DESCRIPTION''"
definition ComponentPropertyLocation :: string where "ComponentPropertyLocation = ''LOCATION''"
definition ComponentPropertyUniqueId :: string where "ComponentPropertyUniqueId = ''UID''"

definition GetProperty :: "vevent \<Rightarrow> string \<Rightarrow> property option" where
  "GetProperty vevent componentProperty =
     find (\<lambda>p. IANAToken p = componentProperty) (Properties vevent)"

subsection \<open>The program: \<^verbatim>\<open>src/main.go\<close>\<close>

record event =
  UID :: string
  Summary :: string
  Description :: string
  Location :: string
  Start :: time
  End :: time
  AllDay :: bool

text \<open>
  What a call can do: return a value, return an error, or panic (a field of a
  \<^verbatim>\<open>nil\<close> property is read).
\<close>

datatype 'a result = Ok 'a | Err error | Panic

text \<open>
  \<^verbatim>\<open>parseICalTime\<close>, lines 215 to 235. The variable \<open>format\<close> is assigned twice, as
  in the source.
\<close>

definition parseICalTime :: "env \<Rightarrow> string \<Rightarrow> property \<Rightarrow> error + time" where
  "parseICalTime e val prop =
     (let format = ''20060102T150405Z0700'' in
      if HasSuffix val ''Z'' then
        (let format = ''20060102T150405Z'' in Parse format val)
      else
        (let loc = Local e in
         case ICalParameters prop ''TZID'' of
           Some tzidVals \<Rightarrow>
             if length tzidVals > 0 then
               (case LoadLocation e (tzidVals ! 0) of
                  Inl err \<Rightarrow> Inl err
                | Inr loc \<Rightarrow> ParseInLocation ''20060102T150405'' val loc)
             else ParseInLocation ''20060102T150405'' val loc
         | None \<Rightarrow> ParseInLocation ''20060102T150405'' val loc))"

text \<open>
  \<^verbatim>\<open>parseEvent\<close>, lines 121 to 212, in the blocks of the source. Lines 142 and 143:
  is the event all-day? Reading a key that a Go map does not hold gives the empty
  list.
\<close>

definition isAllDay :: "property \<Rightarrow> bool" where
  "isAllDay startProp =
     (let valueParam = (case ICalParameters startProp ''VALUE'' of None \<Rightarrow> [] | Some vs \<Rightarrow> vs)
      in length valueParam > 0 \<and> valueParam ! 0 = ''DATE'')"

text \<open>Lines 141 to 175: \<open>start\<close>, \<open>end\<close> and \<open>allDay\<close>, or the error returned.\<close>

definition parseTimes :: "env \<Rightarrow> property \<Rightarrow> property option \<Rightarrow> error + (time \<times> time \<times> bool)" where
  "parseTimes e startProp endProp =
     (if isAllDay startProp then
        (case Parse ''20060102'' (Value startProp) of
           Inl err \<Rightarrow> Inl err
         | Inr start \<Rightarrow>
            (case endProp of
               Some ep \<Rightarrow>
                 (case Parse ''20060102'' (Value ep) of
                    Inl err \<Rightarrow> Inl err
                  | Inr end \<Rightarrow> Inr (start, end, True))
             | None \<Rightarrow> Inr (start, Add start (24 * Hour), True)))
      else
        (case parseICalTime e (Value startProp) startProp of
           Inl err \<Rightarrow> Inl err
         | Inr start \<Rightarrow>
            (case endProp of
               Some ep \<Rightarrow>
                 (case parseICalTime e (Value ep) ep of
                    Inl err \<Rightarrow> Inl err
                  | Inr end \<Rightarrow> Inr (start, end, False))
             | None \<Rightarrow> Inr (start, start, False))))"

text \<open>
  Lines 178 to 185 for the start, 188 to 195 for the end: the time is re-expressed in
  the zone of the property's first TZID value when that zone loads; an error of
  \<^verbatim>\<open>LoadLocation\<close> is dropped here.
\<close>

definition adjustTZ :: "env \<Rightarrow> property \<Rightarrow> time \<Rightarrow> time" where
  "adjustTZ e prop t =
     (case ICalParameters prop ''TZID'' of
        Some tzidVals \<Rightarrow>
          if length tzidVals > 0 then
            (case LoadLocation e (tzidVals ! 0) of
               Inr loc \<Rightarrow> In t loc
             | Inl err \<Rightarrow> t)
          else t
      | None \<Rightarrow> t)"

text \<open>
  Lines 199 to 208: the \<^verbatim>\<open>Event\<close> literal reads \<^verbatim>\<open>.Value\<close> of four properties that were
  never compared with \<^verbatim>\<open>nil\<close>.
\<close>

definition makeEvent ::
  "property option \<Rightarrow> property option \<Rightarrow> property option \<Rightarrow> property option \<Rightarrow>
   time \<Rightarrow> time \<Rightarrow> bool \<Rightarrow> event option result" where
  "makeEvent uidProp summaryProp descriptionProp locationProp start end allDay =
     (case uidProp of None \<Rightarrow> Panic | Some u \<Rightarrow>
       (case summaryProp of None \<Rightarrow> Panic | Some s \<Rightarrow>
         (case descriptionProp of None \<Rightarrow> Panic | Some d \<Rightarrow>
           (case locationProp of None \<Rightarrow> Panic | Some l \<Rightarrow>
              Ok (Some \<lparr>UID = Value u, Summary = Value s, Description = Value d,
                         Location = Value l, Start = start, End = end, AllDay = allDay\<rparr>)))))"

definition parseEvent :: "env \<Rightarrow> vevent \<Rightarrow> time \<Rightarrow> time \<Rightarrow> event option result" where
  "parseEvent e vevent targetStart targetEnd =
     (let startProp = GetProperty vevent ComponentPropertyDtStart;
          endProp = GetProperty vevent ComponentPropertyDtEnd;
          summaryProp = GetProperty vevent ComponentPropertySummary;
          descriptionProp = GetProperty vevent ComponentPropertyDescription;
          locationProp = GetProperty vevent ComponentPropertyLocation;
          uidProp = GetProperty vevent ComponentPropertyUniqueId
      in case startProp of
           None \<Rightarrow> Err MissingDTSTART
         | Some sp \<Rightarrow>
            (case parseTimes e sp endProp of
               Inl err \<Rightarrow> Err err
             | Inr (start0, end0, allDay) \<Rightarrow>
                (let start = adjustTZ e sp start0;
                     end = (case endProp of Some ep \<Rightarrow> adjustTZ e ep end0 | None \<Rightarrow> end0)
                 in if After end targetStart \<and> Before start targetEnd
                    then makeEvent uidProp summaryProp descriptionProp locationProp start end allDay
                    else Ok None)))"

text \<open>
  \<^verbatim>\<open>caljsonHandler\<close>. Lines 89 and 90: the target window, from the calendar date of
  \<open>targetDate\<close>.
\<close>

definition targetWindow :: "env \<Rightarrow> int \<Rightarrow> int \<Rightarrow> int \<Rightarrow> time \<times> time" where
  "targetWindow e year month day =
     (let targetStart = Date year month day 0 0 0 0 (Local e);
          targetEnd = Add targetStart (24 * Hour)
      in (targetStart, targetEnd))"

text \<open>
  Lines 93 to 104: the loop over the calendar's components, \<open>events\<close> being the slice
  built so far. An error of \<^verbatim>\<open>parseEvent\<close> is \<^verbatim>\<open>continue\<close>; a panic ends the handler.
\<close>

fun collectEvents :: "env \<Rightarrow> component list \<Rightarrow> time \<Rightarrow> time \<Rightarrow> event list \<Rightarrow> event list result" where
  "collectEvents e [] targetStart targetEnd events = Ok events"
| "collectEvents e (OtherComponent # cs) targetStart targetEnd events =
     collectEvents e cs targetStart targetEnd events"
| "collectEvents e (VEvent vevent # cs) targetStart targetEnd events =
     (case parseEvent e vevent targetStart targetEnd of
        Panic \<Rightarrow> Panic
      | Err err \<Rightarrow> collectEvents e cs targetStart targetEnd events
      | Ok None \<Rightarrow> collectEvents e cs targetStart targetEnd events
      | Ok (Some ev) \<Rightarrow> collectEvents e cs targetStart targetEnd (events @ [ev]))"

text \<open>Lines 93 to 109: collect, then sort by start; the list that is encoded.\<close>

definition caljsonHandler :: "env \<Rightarrow> component list \<Rightarrow> time \<Rightarrow> time \<Rightarrow> event list result" where
  "caljsonHandler e components targetStart targetEnd =
     (case collectEvents e components targetStart targetEnd [] of
        Ok events \<Rightarrow> Ok (sortSlice (\<lambda>a b. Before (Start a) (Start b)) events)
      | Err err \<Rightarrow> Err err
      | Panic \<Rightarrow> Panic)"

subsection \<open>The program: \<^verbatim>\<open>src/unnamed/part_000\<close>\<close>

text \<open>
  \<^verbatim>\<open>parseICalTime\<close>, lines 207 to 227 of the gin variant: there is no variable
  \<open>format\<close>, the layout of the UTC case is written at the call. \<^verbatim>\<open>parseEvent\<close>, lines
  114 to 205, has the text of \<^verbatim>\<open>src/main.go\<close> and calls this \<^verbatim>\<open>parseICalTime\<close>.
\<close>

definition parseICalTime_part000 :: "env \<Rightarrow> string \<Rightarrow> property \<Rightarrow> error + time" where
  "parseICalTime_part000 e val prop =
     (if HasSuffix val ''Z'' then Parse ''20060102T150405Z'' val
      else
        (let loc = Local e in
         case ICalParameters prop ''TZID'' of
           Some tzidVals \<Rightarrow>
             if length tzidVals > 0 then
               (case LoadLocation e (tzidVals ! 0) of
                  Inl err \<Rightarrow> Inl err
                | Inr loc \<Rightarrow> ParseInLocation ''20060102T150405'' val loc)
             else ParseInLocation ''20060102T150405'' val loc
         | None \<Rightarrow> ParseInLocation ''20060102T150405'' val loc))"

definition parseTimes_part000 ::
  "env \<Rightarrow> property \<Rightarrow> property option \<Rightarrow> error + (time \<times> time \<times> bool)" where
  "parseTimes_part000 e startProp endProp =
     (if isAllDay startProp then
        (case Parse ''20060102'' (Value startProp) of
           Inl err \<Rightarrow> Inl err
         | Inr start \<Rightarrow>
            (case endProp of
               Some ep \<Rightarrow>
                 (case Parse ''20060102'' (Value ep) of
                    Inl err \<Rightarrow> Inl err
                  | Inr end \<Rightarrow> Inr (start, end, True))
             | None \<Rightarrow> Inr (start, Add start (24 * Hour), True)))
      else
        (case parseICalTime_part000 e (Value startProp) startProp of
           Inl err \<Rightarrow> Inl err
         | Inr start \<Rightarrow>
            (case endProp of
               Some ep \<Rightarrow>
                 (case parseICalTime_part000 e (Value ep) ep of
                    Inl err \<Rightarrow> Inl err
                  | Inr end \<Rightarrow> Inr (start, end, False))
             | None \<Rightarrow> Inr (start, start, False))))"

definition parseEvent_part000 :: "env \<Rightarrow> vevent \<Rightarrow> time \<Rightarrow> time \<Rightarrow> event option result" where
  "parseEvent_part000 e vevent targetStart targetEnd =
     (let startProp = GetProperty vevent ComponentPropertyDtStart;
          endProp = GetProperty vevent ComponentPropertyDtEnd;
          summaryProp = GetProperty vevent ComponentPropertySummary;
          descriptionProp = GetProperty vevent ComponentPropertyDescription;
          locationProp = GetProperty vevent ComponentPropertyLocation;
          uidProp = GetProperty vevent ComponentPropertyUniqueId
      in case startProp of
           None \<Rightarrow> Err MissingDTSTART
         | Some sp \<Rightarrow>
            (case parseTimes_part000 e sp endProp of
               Inl err \<Rightarrow> Err err
             | Inr (start0, end0, allDay) \<Rightarrow>
                (let start = adjustTZ e sp start0;
                     end = (case endProp of Some ep \<Rightarrow> adjustTZ e ep end0 | None \<Rightarrow> end0)
                 in if After end targetStart \<and> Before start targetEnd
                    then makeEvent uidProp summaryProp descriptionProp locationProp start end allDay
                    else Ok None)))"

subsection \<open>A comparison program: \<^verbatim>\<open>parseEvent\<close> without lines 177 to 196\<close>

text \<open>
  \<^verbatim>\<open>parseEvent\<close> of \<^verbatim>\<open>src/main.go\<close> with the two blocks under the comment
  \<^verbatim>\<open>Adjust for time zones if TZID is present\<close> left out. It is not in the source; it is
  what the adjustment is measured against. \<open>eventInstants\<close> is an event without the
  locations of its two times.
\<close>

definition parseEvent_noAdjust :: "env \<Rightarrow> vevent \<Rightarrow> time \<Rightarrow> time \<Rightarrow> event option result" where
  "parseEvent_noAdjust e vevent targetStart targetEnd =
     (let startProp = GetProperty vevent ComponentPropertyDtStart;
          endProp = GetProperty vevent ComponentPropertyDtEnd;
          summaryProp = GetProperty vevent ComponentPropertySummary;
          descriptionProp = GetProperty vevent ComponentPropertyDescription;
          locationProp = GetProperty vevent ComponentPropertyLocation;
          uidProp = GetProperty vevent ComponentPropertyUniqueId
      in case startProp of
           None \<Rightarrow> Err MissingDTSTART
         | Some sp \<Rightarrow>
            (case parseTimes e sp endProp of
               Inl err \<Rightarrow> Err err
             | Inr (start, end, allDay) \<Rightarrow>
                 if After end targetStart \<and> Before start targetEnd
                 then makeEvent uidProp summaryProp descriptionProp locationProp start end allDay
                 else Ok None))"

definition eventInstants :: "event \<Rightarrow> string \<times> string \<times> string \<times> string \<times> int \<times> int \<times> bool" where
  "eventInstants ev =
     (UID ev, Summary ev, Description ev, Location ev,
      unixNano (Start ev), unixNano (End ev), AllDay ev)"

subsection \<open>Sample inputs\<close>

text \<open>
  Two processes: one whose local zone is UTC, one an hour east of it; the zone
  database of both holds New York with its two changes of 2024. Then components as
  the calendar parser delivers them.
\<close>

definition newYork2024 :: location where
  "newYork2024 = Loc ''America/New_York''
     (\<lambda>unix. if unix < 1710054000 then (- 18000, alpha, 1710054000)
             else if unix < 1730613600 then (- 14400, 1710054000, 1730613600)
             else (- 18000, 1730613600, omega))"

definition sampleZones :: "string \<Rightarrow> location option" where
  "sampleZones name = (if name = ''America/New_York'' then Some newYork2024 else None)"

definition env_utc :: env where
  "env_utc = \<lparr>Local = UTC, zoneinfo = sampleZones\<rparr>"

definition env_cet :: env where
  "env_cet = \<lparr>Local = FixedZone ''CET'' 3600, zoneinfo = sampleZones\<rparr>"

definition textProp :: "string \<Rightarrow> string \<Rightarrow> property" where
  "textProp token v = \<lparr>IANAToken = token, ICalParameters = Map.empty, Value = v\<rparr>"

definition paramProp :: "string \<Rightarrow> string \<Rightarrow> string list \<Rightarrow> string \<Rightarrow> property" where
  "paramProp token name vals v =
     \<lparr>IANAToken = token, ICalParameters = [name \<mapsto> vals], Value = v\<rparr>"

definition sampleTexts :: "property list" where
  "sampleTexts =
     [textProp ''UID'' ''uid-1'', textProp ''SUMMARY'' ''Standup'',
      textProp ''DESCRIPTION'' ''Daily'', textProp ''LOCATION'' ''Room 1'']"

text \<open>\<^verbatim>\<open>DTSTART;VALUE=DATE:20240301\<close>, no \<^verbatim>\<open>DTEND\<close>.\<close>

definition ev_allday_0301 :: vevent where
  "ev_allday_0301 =
     \<lparr>Properties = paramProp ''DTSTART'' ''VALUE'' [''DATE''] ''20240301'' # sampleTexts\<rparr>"

text \<open>A timed event with the given \<^verbatim>\<open>DTSTART\<close> value, no parameters, no \<^verbatim>\<open>DTEND\<close>.\<close>

definition ev_timed :: "string \<Rightarrow> vevent" where
  "ev_timed dtstart = \<lparr>Properties = textProp ''DTSTART'' dtstart # sampleTexts\<rparr>"

text \<open>One hour on 1 March 2024, with a \<^verbatim>\<open>UID\<close> and nothing else.\<close>

definition ev_uid_only :: vevent where
  "ev_uid_only =
     \<lparr>Properties = [textProp ''DTSTART'' ''20240301T100000Z'',
                    textProp ''DTEND'' ''20240301T110000Z'',
                    textProp ''UID'' ''uid-2'']\<rparr>"

text \<open>Noon of 1 March 2024 with every text property but \<^verbatim>\<open>SUMMARY\<close>.\<close>

definition ev_no_summary :: vevent where
  "ev_no_summary =
     \<lparr>Properties = [textProp ''DTSTART'' ''20240301T120000Z'',
                    textProp ''DTEND'' ''20240301T130000Z'',
                    textProp ''UID'' ''uid-3'',
                    textProp ''DESCRIPTION'' ''Daily'', textProp ''LOCATION'' ''Room 1'']\<rparr>"

text \<open>\<^verbatim>\<open>DTSTART;TZID=Nowhere/Bogus:20240615T090000\<close>.\<close>

definition ev_bogus_tzid :: vevent where
  "ev_bogus_tzid =
     \<lparr>Properties = paramProp ''DTSTART'' ''TZID'' [''Nowhere/Bogus''] ''20240615T090000''
                     # sampleTexts\<rparr>"

text \<open>\<^verbatim>\<open>DTSTART;TZID=America/New_York:20240615T090000\<close>.\<close>

definition dtstart_new_york :: property where
  "dtstart_new_york = paramProp ''DTSTART'' ''TZID'' [''America/New_York''] ''20240615T090000''"

text \<open>No \<^verbatim>\<open>DTSTART\<close>.\<close>

definition ev_no_start :: vevent where
  "ev_no_start = \<lparr>Properties = sampleTexts\<rparr>"

text \<open>Three timed events of 1 March 2024, at 10:00, 08:00 and 09:00 UTC.\<close>

definition doc_three :: "component list" where
  "doc_three =
     [VEvent (ev_timed ''20240301T100000Z''), VEvent (ev_timed ''20240301T080000Z''),
      VEvent (ev_timed ''20240301T090000Z'')]"

section \<open>Properties\<close>

subsection \<open>Unfolding sets\<close>

lemmas token_defs =
  ComponentPropertyDtStart_def ComponentPropertyDtEnd_def ComponentPropertySummary_def
  ComponentPropertyDescription_def ComponentPropertyLocation_def ComponentPropertyUniqueId_def

lemmas sample_defs =
  textProp_def paramProp_def sampleTexts_def GetProperty_def token_defs

subsection \<open>The secondary zone adjustment\<close>

lemma unixNano_In: "unixNano (In t l) = unixNano t"
  by (simp add: In_def)

lemma unixNano_adjustTZ: "unixNano (adjustTZ e prop t) = unixNano t"
  by (simp add: adjustTZ_def unixNano_In split: option.splits sum.splits)

lemma adjustTZ_cases: "adjustTZ e p t = t \<or> (\<exists>l. adjustTZ e p t = In t l)"
  by (auto simp add: adjustTZ_def split: option.splits sum.splits)

lemma adjustTZ_only_tloc: "\<exists>l. adjustTZ e p t = t\<lparr>tloc := l\<rparr>"
proof -
  have "t = t\<lparr>tloc := tloc t\<rparr>" by simp
  then show ?thesis
    using adjustTZ_cases [of e p t] unfolding In_def by metis
qed

lemma After_adjustTZ: "After (adjustTZ e prop t) w = After t w"
  by (simp add: After_def unixNano_adjustTZ)

lemma Before_adjustTZ: "Before (adjustTZ e prop t) w = Before t w"
  by (simp add: Before_def unixNano_adjustTZ)

lemma makeEvent_instants:
  "map_result (map_option eventInstants) (makeEvent u sm d l s t a) =
   (case u of None \<Rightarrow> Panic | Some u' \<Rightarrow>
     (case sm of None \<Rightarrow> Panic | Some sm' \<Rightarrow>
       (case d of None \<Rightarrow> Panic | Some d' \<Rightarrow>
         (case l of None \<Rightarrow> Panic | Some l' \<Rightarrow>
            Ok (Some (Value u', Value sm', Value d', Value l', unixNano s, unixNano t, a))))))"
  by (simp add: makeEvent_def eventInstants_def split: option.splits)

text \<open>
  Claim C7. The secondary zone adjustment (lines 177 to 196) never changes the instant
  of the time it is applied to, only its location. So the overlap test gives the same
  answer on the adjusted and on the unadjusted times, and for every component and
  window \<^verbatim>\<open>parseEvent\<close> has the outcome of the program without the adjustment, with
  the same strings, all-day flag and start and end instants in a returned event.
\<close>

theorem C7_zone_adjustment_keeps_instants:
  "unixNano (adjustTZ e prop t) = unixNano t
   \<and> (\<exists>l. adjustTZ e prop t = t\<lparr>tloc := l\<rparr>)
   \<and> (After (adjustTZ e ep end0) w0 \<and> Before (adjustTZ e sp start0) w1)
       = (After end0 w0 \<and> Before start0 w1)
   \<and> map_result (map_option eventInstants) (parseEvent e v w0 w1)
       = map_result (map_option eventInstants) (parseEvent_noAdjust e v w0 w1)"
proof -
  have "map_result (map_option eventInstants) (parseEvent e v w0 w1)
       = map_result (map_option eventInstants) (parseEvent_noAdjust e v w0 w1)"
  proof (cases "GetProperty v ComponentPropertyDtStart")
    case None
    then show ?thesis by (simp add: parseEvent_def parseEvent_noAdjust_def)
  next
    case (Some sp')
    show ?thesis
    proof (cases "parseTimes e sp' (GetProperty v ComponentPropertyDtEnd)")
      case (Inl err)
      with Some show ?thesis by (simp add: parseEvent_def parseEvent_noAdjust_def)
    next
      case (Inr r)
      obtain s t a where r: "r = (s, t, a)" by (cases r)
      have eq: "unixNano (case GetProperty v ComponentPropertyDtEnd of
                  Some ep \<Rightarrow> adjustTZ e ep t | None \<Rightarrow> t) = unixNano t"
        by (simp add: unixNano_adjustTZ split: option.splits)
      show ?thesis
        using Some Inr r eq
        by (simp add: parseEvent_def parseEvent_noAdjust_def Let_def After_def Before_def
            unixNano_adjustTZ makeEvent_instants cong: option.case_cong)
    qed
  qed
  then show ?thesis
    using adjustTZ_only_tloc
    by (simp only: unixNano_adjustTZ After_adjustTZ Before_adjustTZ simp_thms)
qed

subsection \<open>The two variants\<close>

lemma parseICalTime_part000_eq: "parseICalTime_part000 = parseICalTime"
  by (intro ext) (simp add: parseICalTime_def parseICalTime_part000_def)

lemma parseTimes_part000_eq: "parseTimes_part000 = parseTimes"
  unfolding parseTimes_part000_def parseTimes_def parseICalTime_part000_eq
  by (rule refl)

text \<open>
  Claim C10. \<^verbatim>\<open>parseICalTime\<close> and \<^verbatim>\<open>parseEvent\<close> of \<^verbatim>\<open>src/main.go\<close> and of
  \<^verbatim>\<open>src/unnamed/part_000\<close> return the same result on every input: the same event or
  absence, the same error, the same panic. The variant of \<^verbatim>\<open>part_000\<close> has no first
  assignment to \<open>format\<close>, so that assignment of \<^verbatim>\<open>src/main.go\<close> has no effect.
\<close>

theorem C10_variants_agree:
  "parseICalTime e val prop = parseICalTime_part000 e val prop
   \<and> parseEvent e v w0 w1 = parseEvent_part000 e v w0 w1"
  unfolding parseEvent_def parseEvent_part000_def parseTimes_part000_eq
    parseICalTime_part000_eq
  by simp

subsection \<open>Sorting\<close>

lemma mset_sinkLess: "mset (sinkLess lt x ys) = add_mset x (mset ys)"
  by (induction ys) auto

lemma set_sinkLess: "set (sinkLess lt x ys) = insert x (set ys)"
  by (induction ys) auto

lemma mset_insertionSortLoop: "mset (insertionSortLoop lt pre xs) = mset pre + mset xs"
  by (induction xs arbitrary: pre) (auto simp: mset_sinkLess)

lemma mset_sortSlice: "mset (sortSlice lt xs) = mset xs"
  by (simp add: sortSlice_def mset_insertionSortLoop)

lemma sinkLess_descending:
  fixes k :: "'a \<Rightarrow> int"
  shows "sorted_wrt (\<lambda>a b. k b \<le> k a) ys \<Longrightarrow>
         sorted_wrt (\<lambda>a b. k b \<le> k a) (sinkLess (\<lambda>a b. k a < k b) x ys)"
proof (induction ys)
  case Nil
  then show ?case by simp
next
  case (Cons y ys)
  show ?case
  proof (cases "k x < k y")
    case True
    with Cons show ?thesis by (auto simp: set_sinkLess)
  next
    case False
    with Cons.prems show ?thesis by fastforce
  qed
qed

lemma insertionSortLoop_ascending:
  fixes k :: "'a \<Rightarrow> int"
  shows "sorted_wrt (\<lambda>a b. k b \<le> k a) pre \<Longrightarrow>
         sorted_wrt (\<lambda>a b. k a \<le> k b) (insertionSortLoop (\<lambda>a b. k a < k b) pre xs)"
proof (induction xs arbitrary: pre)
  case Nil
  then show ?case by (simp add: sorted_wrt_rev)
next
  case (Cons x xs)
  then show ?case by (simp add: sinkLess_descending)
qed

lemma sortSlice_ascending:
  fixes k :: "'a \<Rightarrow> int"
  shows "sorted_wrt (\<lambda>a b. k a \<le> k b) (sortSlice (\<lambda>a b. k a < k b) xs)"
  by (simp add: sortSlice_def insertionSortLoop_ascending)

text \<open>
  Claim C9. When the handler returns a list, that list is a permutation of the events
  collected by the loop and is ascending by start instant: of two adjacent elements
  the first does not start after the second.
\<close>

theorem C9_output_sorted_by_start:
  assumes "caljsonHandler e comps w0 w1 = Ok out"
  shows "\<exists>es. collectEvents e comps w0 w1 [] = Ok es
           \<and> mset out = mset es
           \<and> sorted (map (\<lambda>ev. unixNano (Start ev)) out)
           \<and> (\<forall>i. Suc i < length out \<longrightarrow> \<not> After (Start (out ! i)) (Start (out ! Suc i)))"
proof -
  from assms obtain es where es: "collectEvents e comps w0 w1 [] = Ok es"
    and out: "out = sortSlice (\<lambda>a b. Before (Start a) (Start b)) es"
    by (auto simp: caljsonHandler_def split: result.splits)
  have asc: "sorted_wrt (\<lambda>a b. unixNano (Start a) \<le> unixNano (Start b)) out"
    unfolding out Before_def by (rule sortSlice_ascending)
  have adj: "\<not> After (Start (out ! i)) (Start (out ! Suc i))" if "Suc i < length out" for i
    using sorted_wrt_nth_less [OF asc, of i "Suc i"] that by (simp add: After_def)
  have "mset out = mset es"
    by (simp add: out mset_sortSlice)
  moreover have "sorted (map (\<lambda>ev. unixNano (Start ev)) out)"
    using asc by (simp add: sorted_map)
  ultimately show ?thesis
    using es adj by blast
qed



subsection \<open>Evaluating the sample inputs\<close>

lemma lookup_UTC: "lookup UTC u = (0, alpha, omega)"
  by (simp add: UTC_def)

lemma Date_UTC:
  "Date y m d h mi s ns UTC =
   \<lparr>unixNano = (daysSinceEpoch y m d * 86400 + h * 3600 + mi * 60 + s) * 1000000000 + ns,
    tloc = UTC\<rparr>"
  by (simp add: Date_def lookup_UTC)

lemmas civil_defs = daysSinceEpoch_def daysBefore_def isLeap_def daysIn_def

lemmas scan_defs =
  Parse_def ParseInLocation_def layoutChunks_def fields0_def getnum_def isDigit_def digit_def
  atoi_def fracSecond_def

lemma window_utc_0301:
  "targetWindow env_utc 2024 3 1 =
   (\<lparr>unixNano = 1709251200000000000, tloc = UTC\<rparr>,
    \<lparr>unixNano = 1709337600000000000, tloc = UTC\<rparr>)"
  by (simp add: targetWindow_def env_utc_def Date_UTC civil_defs Add_def Hour_def)

lemma Parse_0800Z:
  "Parse ''20060102T150405Z'' ''20240301T080000Z'' =
   Inr \<lparr>unixNano = 1709280000000000000, tloc = UTC\<rparr>"
  by (simp add: scan_defs Date_UTC civil_defs)

lemma Parse_0900Z:
  "Parse ''20060102T150405Z'' ''20240301T090000Z'' =
   Inr \<lparr>unixNano = 1709283600000000000, tloc = UTC\<rparr>"
  by (simp add: scan_defs Date_UTC civil_defs)

lemma Parse_1000Z:
  "Parse ''20060102T150405Z'' ''20240301T100000Z'' =
   Inr \<lparr>unixNano = 1709287200000000000, tloc = UTC\<rparr>"
  by (simp add: scan_defs Date_UTC civil_defs)

lemma parseEvent_ev_timed_Z:
  "HasSuffix s ''Z'' \<Longrightarrow>
   parseEvent e (ev_timed s) w0 w1 =
   (case Parse ''20060102T150405Z'' s of
      Inl err \<Rightarrow> Err err
    | Inr t \<Rightarrow>
       if After t w0 \<and> Before t w1
       then Ok (Some \<lparr>UID = ''uid-1'', Summary = ''Standup'', Description = ''Daily'',
                      Location = ''Room 1'', Start = t, End = t, AllDay = False\<rparr>)
       else Ok None)"
  by (simp add: parseEvent_def ev_timed_def sample_defs parseTimes_def isAllDay_def
      parseICalTime_def adjustTZ_def makeEvent_def split: sum.splits)


lemma handler_doc_three:
  "caljsonHandler env_utc doc_three
     (fst (targetWindow env_utc 2024 3 1)) (snd (targetWindow env_utc 2024 3 1)) =
   Ok (map (\<lambda>n. \<lparr>UID = ''uid-1'', Summary = ''Standup'', Description = ''Daily'',
                    Location = ''Room 1'', Start = \<lparr>unixNano = n, tloc = UTC\<rparr>,
                    End = \<lparr>unixNano = n, tloc = UTC\<rparr>, AllDay = False\<rparr>)
         [1709280000000000000, 1709283600000000000, 1709287200000000000])"
  by (simp add: caljsonHandler_def doc_three_def parseEvent_ev_timed_Z HasSuffix_def
      Parse_0800Z Parse_0900Z Parse_1000Z window_utc_0301 After_def Before_def sortSlice_def)

text \<open>
  The document with starts 10:00, 08:00, 09:00 comes out as 08:00, 09:00, 10:00.
\<close>

theorem C9_output_sorted_by_start_witness:
  "\<exists>out. caljsonHandler env_utc doc_three
            (fst (targetWindow env_utc 2024 3 1)) (snd (targetWindow env_utc 2024 3 1)) = Ok out
         \<and> map (\<lambda>ev. unixNano (Start ev)) out =
             [1709280000000000000, 1709283600000000000, 1709287200000000000]
         \<and> sorted (map (\<lambda>ev. unixNano (Start ev)) out)
         \<and> \<not> After (Start (out ! 0)) (Start (out ! 1))
         \<and> \<not> After (Start (out ! 1)) (Start (out ! 2))"
proof -
  define out where "out = map (\<lambda>n. \<lparr>UID = ''uid-1'', Summary = ''Standup'', Description = ''Daily'',
                    Location = ''Room 1'', Start = \<lparr>unixNano = n, tloc = UTC\<rparr>,
                    End = \<lparr>unixNano = n, tloc = UTC\<rparr>, AllDay = False\<rparr>)
         [1709280000000000000, 1709283600000000000, 1709287200000000000]"
  have h: "caljsonHandler env_utc doc_three
            (fst (targetWindow env_utc 2024 3 1)) (snd (targetWindow env_utc 2024 3 1)) = Ok out"
    unfolding out_def by (rule handler_doc_three)
  have len: "length out = 3" by (simp add: out_def)
  from C9_output_sorted_by_start [OF h] obtain es
    where srt: "sorted (map (\<lambda>ev. unixNano (Start ev)) out)"
      and adj: "\<forall>i. Suc i < length out \<longrightarrow> \<not> After (Start (out ! i)) (Start (out ! Suc i))"
    by (elim exE conjE)
  from adj [rule_format, of 0] len have a0: "\<not> After (Start (out ! 0)) (Start (out ! 1))"
    by simp
  from adj [rule_format, of 1] len have a1: "\<not> After (Start (out ! 1)) (Start (out ! 2))"
    by (simp add: numeral_2_eq_2)
  have m: "map (\<lambda>ev. unixNano (Start ev)) out =
             [1709280000000000000, 1709283600000000000, 1709287200000000000]"
    by (simp add: out_def)
  from h m srt a0 a1 show ?thesis
    by (intro exI [of _ out] conjI)
qed

subsection \<open>The batch loop\<close>

lemma collectEvents_append:
  "collectEvents e (xs @ ys) w0 w1 acc =
   (case collectEvents e xs w0 w1 acc of
      Ok es \<Rightarrow> collectEvents e ys w0 w1 es
    | Err err \<Rightarrow> Err err
    | Panic \<Rightarrow> Panic)"
proof (induction e xs w0 w1 acc rule: collectEvents.induct)
  case (1 e w0 w1 acc)
  show ?case by simp
next
  case (2 e cs w0 w1 acc)
  then show ?case by simp
next
  case (3 e v cs w0 w1 acc)
  then show ?case
    by (cases "parseEvent e v w0 w1") (auto split: option.splits)
qed

lemma collectEvents_skip:
  assumes "parseEvent e v w0 w1 = Err err"
  shows "collectEvents e (xs @ VEvent v # ys) w0 w1 acc = collectEvents e (xs @ ys) w0 w1 acc"
  using assms by (simp add: collectEvents_append [of e xs] split: result.splits)

lemma caljsonHandler_skip:
  assumes "parseEvent e v w0 w1 = Err err"
  shows "caljsonHandler e (xs @ VEvent v # ys) w0 w1 = caljsonHandler e (xs @ ys) w0 w1"
  by (simp add: caljsonHandler_def collectEvents_skip [OF assms])

text \<open>What one component adds to the result.\<close>

lemma collectEvents_Ok:
  assumes "\<And>v. VEvent v \<in> set cs \<Longrightarrow> parseEvent e v w0 w1 \<noteq> Panic"
  shows "collectEvents e cs w0 w1 acc =
         Ok (acc @ concat (map (\<lambda>c. case c of
                 VEvent v \<Rightarrow> (case parseEvent e v w0 w1 of Ok (Some ev) \<Rightarrow> [ev] | _ \<Rightarrow> [])
               | OtherComponent \<Rightarrow> []) cs))"
  using assms
proof (induction cs arbitrary: acc)
  case Nil
  show ?case by simp
next
  case (Cons c cs)
  have IH: "collectEvents e cs w0 w1 acc' =
         Ok (acc' @ concat (map (\<lambda>c. case c of
                 VEvent v \<Rightarrow> (case parseEvent e v w0 w1 of Ok (Some ev) \<Rightarrow> [ev] | _ \<Rightarrow> [])
               | OtherComponent \<Rightarrow> []) cs))" for acc'
    by (rule Cons.IH) (simp add: Cons.prems)
  show ?case
  proof (cases c)
    case OtherComponent
    then show ?thesis by (simp add: IH)
  next
    case (VEvent v)
    then have np: "parseEvent e v w0 w1 \<noteq> Panic"
      using Cons.prems by simp
    show ?thesis
    proof (cases "parseEvent e v w0 w1")
      case (Ok r)
      with VEvent show ?thesis by (cases r) (simp_all add: IH)
    next
      case (Err err)
      with VEvent show ?thesis by (simp add: IH)
    next
      case Panic
      with np show ?thesis by simp
    qed
  qed
qed


lemma length_sortSlice: "length (sortSlice lt xs) = length xs"
  using mset_sortSlice [of lt xs] by (metis size_mset)

lemma parseEvent_missing_start:
  "GetProperty v ComponentPropertyDtStart = None \<Longrightarrow> parseEvent e v w0 w1 = Err MissingDTSTART"
  by (simp add: parseEvent_def)

text \<open>
  Claim C8. A component without a start property makes \<^verbatim>\<open>parseEvent\<close> fail with the
  missing-start error; the handler's result is the one of the document without that
  component, wherever it stands; and a document of that component and two components
  for which \<^verbatim>\<open>parseEvent\<close> returns an event, in any order, yields exactly two results.
\<close>

theorem C8_missing_start_skipped:
  assumes "GetProperty bad ComponentPropertyDtStart = None"
  shows "parseEvent e bad w0 w1 = Err MissingDTSTART
       \<and> caljsonHandler e (xs @ VEvent bad # ys) w0 w1 = caljsonHandler e (xs @ ys) w0 w1
       \<and> (parseEvent e g1 w0 w1 = Ok (Some e1) \<and> parseEvent e g2 w0 w1 = Ok (Some e2)
            \<and> mset doc = {#VEvent bad, VEvent g1, VEvent g2#}
          \<longrightarrow> (\<exists>es. caljsonHandler e doc w0 w1 = Ok es \<and> length es = 2))"
proof -
  have bad: "parseEvent e bad w0 w1 = Err MissingDTSTART"
    using assms by (rule parseEvent_missing_start)
  have skip: "caljsonHandler e (xs @ VEvent bad # ys) w0 w1 = caljsonHandler e (xs @ ys) w0 w1"
    using bad by (rule caljsonHandler_skip)
  have two: "\<exists>es. caljsonHandler e doc w0 w1 = Ok es \<and> length es = 2"
    if g1: "parseEvent e g1 w0 w1 = Ok (Some e1)"
      and g2: "parseEvent e g2 w0 w1 = Ok (Some e2)"
      and doc: "mset doc = {#VEvent bad, VEvent g1, VEvent g2#}"
  proof -
    let ?f = "\<lambda>c. case c of
                 VEvent v \<Rightarrow> (case parseEvent e v w0 w1 of Ok (Some ev) \<Rightarrow> [ev] | _ \<Rightarrow> [])
               | OtherComponent \<Rightarrow> []"
    have "set doc = set_mset (mset doc)"
      by simp
    also have "\<dots> = {VEvent bad, VEvent g1, VEvent g2}"
      unfolding doc by simp
    finally have sd: "set doc = {VEvent bad, VEvent g1, VEvent g2}" .
    have "parseEvent e v w0 w1 \<noteq> Panic" if "VEvent v \<in> set doc" for v
    proof -
      from that sd have "v = bad \<or> v = g1 \<or> v = g2" by simp
      then show ?thesis using bad g1 g2 by (elim disjE) simp_all
    qed
    then have col: "collectEvents e doc w0 w1 [] = Ok ([] @ concat (map ?f doc))"
      by (rule collectEvents_Ok)
    have "length (concat (map ?f doc)) = sum_list (map (\<lambda>c. length (?f c)) doc)"
      by (simp add: length_concat comp_def)
    also have "\<dots> = sum_mset (mset (map (\<lambda>c. length (?f c)) doc))"
      by (simp only: sum_mset_sum_list)
    also have "\<dots> = sum_mset (image_mset (\<lambda>c. length (?f c)) (mset doc))"
      by (simp only: mset_map)
    also have "\<dots> = 2"
      by (simp add: doc bad g1 g2)
    finally have len: "length (concat (map ?f doc)) = 2" .
    show ?thesis
      using col len by (simp add: caljsonHandler_def length_sortSlice)
  qed
  from bad skip two show ?thesis by (intro conjI impI) (assumption, assumption, elim conjE)
qed

lemma GetProperty_ev_no_start: "GetProperty ev_no_start ComponentPropertyDtStart = None"
  by (simp add: ev_no_start_def sample_defs)

theorem C8_missing_start_skipped_witness:
  "GetProperty ev_no_start ComponentPropertyDtStart = None
   \<and> parseEvent env_utc ev_no_start
        (fst (targetWindow env_utc 2024 3 1)) (snd (targetWindow env_utc 2024 3 1))
       = Err MissingDTSTART
   \<and> (\<exists>es. caljsonHandler env_utc
               [VEvent (ev_timed ''20240301T100000Z''), VEvent ev_no_start,
                VEvent (ev_timed ''20240301T080000Z'')]
               (fst (targetWindow env_utc 2024 3 1)) (snd (targetWindow env_utc 2024 3 1)) = Ok es
           \<and> length es = 2)"
proof -
  let ?w0 = "fst (targetWindow env_utc 2024 3 1)"
  let ?w1 = "snd (targetWindow env_utc 2024 3 1)"
  let ?ev = "\<lambda>n. \<lparr>UID = ''uid-1'', Summary = ''Standup'', Description = ''Daily'',
                    Location = ''Room 1'', Start = \<lparr>unixNano = n, tloc = UTC\<rparr>,
                    End = \<lparr>unixNano = n, tloc = UTC\<rparr>, AllDay = False\<rparr>"
  have g1: "parseEvent env_utc (ev_timed ''20240301T100000Z'') ?w0 ?w1
            = Ok (Some (?ev 1709287200000000000))"
    by (simp add: parseEvent_ev_timed_Z HasSuffix_def Parse_1000Z window_utc_0301
        After_def Before_def)
  have g2: "parseEvent env_utc (ev_timed ''20240301T080000Z'') ?w0 ?w1
            = Ok (Some (?ev 1709280000000000000))"
    by (simp add: parseEvent_ev_timed_Z HasSuffix_def Parse_0800Z window_utc_0301
        After_def Before_def)
  have m: "mset [VEvent (ev_timed ''20240301T100000Z''), VEvent ev_no_start,
                 VEvent (ev_timed ''20240301T080000Z'')]
           = {#VEvent ev_no_start, VEvent (ev_timed ''20240301T100000Z''),
               VEvent (ev_timed ''20240301T080000Z'')#}"
    by simp
  note th = C8_missing_start_skipped [OF GetProperty_ev_no_start, of env_utc ?w0 ?w1]
  from th have "parseEvent env_utc ev_no_start ?w0 ?w1 = Err MissingDTSTART"
    by (rule conjunct1)
  moreover from th g1 g2 m
  have "\<exists>es. caljsonHandler env_utc
               [VEvent (ev_timed ''20240301T100000Z''), VEvent ev_no_start,
                VEvent (ev_timed ''20240301T080000Z'')] ?w0 ?w1 = Ok es
           \<and> length es = 2"
    by blast
  ultimately show ?thesis
    using GetProperty_ev_no_start by (intro conjI)
qed

subsection \<open>Parsing a timed value\<close>

lemma Date_offset:
  "\<exists>w. unixNano (Date y m d h mi s ns l) =
          unixNano (Date y m d h mi s ns UTC) - fst (lookup l w) * 1000000000"
proof -
  define unix where "unix = daysSinceEpoch y m d * 86400 + h * 3600 + mi * 60 + s"
  obtain off st en where lk: "lookup l unix = (off, st, en)"
    by (cases "lookup l unix")
  have utc: "unixNano (Date y m d h mi s ns UTC) = unix * 1000000000 + ns"
    by (simp add: Date_UTC unix_def)
  show ?thesis
  proof (cases "off = 0")
    case True
    then have "unixNano (Date y m d h mi s ns l) = unix * 1000000000 + ns"
      using lk by (simp add: Date_def unix_def [symmetric])
    with utc True lk have "unixNano (Date y m d h mi s ns l) =
          unixNano (Date y m d h mi s ns UTC) - fst (lookup l unix) * 1000000000"
      by simp
    then show ?thesis ..
  next
    case False
    show ?thesis
    proof (cases "unix - off < st \<or> unix - off \<ge> en")
      case True
      with False lk have "unixNano (Date y m d h mi s ns l) =
          (unix - fst (lookup l (unix - off))) * 1000000000 + ns"
        by (simp add: Date_def unix_def [symmetric] Let_def)
      with utc have "unixNano (Date y m d h mi s ns l) =
          unixNano (Date y m d h mi s ns UTC) - fst (lookup l (unix - off)) * 1000000000"
        by (simp add: algebra_simps)
      then show ?thesis ..
    next
      case nt: False
      with False lk have "unixNano (Date y m d h mi s ns l) = (unix - off) * 1000000000 + ns"
        by (simp add: Date_def unix_def [symmetric] Let_def)
      with utc lk have "unixNano (Date y m d h mi s ns l) =
          unixNano (Date y m d h mi s ns UTC) - fst (lookup l unix) * 1000000000"
        by (simp add: algebra_simps)
      then show ?thesis ..
    qed
  qed
qed

lemma tloc_Date: "tloc (Date y m d h mi s ns l) = l"
  by (simp add: Date_def Let_def split: prod.splits)

lemma ParseInLocation_wall_clock:
  assumes "ParseInLocation layout v l = Inr t"
  shows "\<exists>u w. Parse layout v = Inr u
           \<and> unixNano t = unixNano u - fst (lookup l w) * 1000000000 \<and> tloc t = l"
proof -
  from assms obtain y m d h mi s ns
    where t: "t = Date y m d h mi s ns l" and u: "Parse layout v = Inr (Date y m d h mi s ns UTC)"
    by (auto simp: ParseInLocation_def Parse_def Let_def split: option.splits if_splits)
  from Date_offset [of y m d h mi s ns l] t u tloc_Date [of y m d h mi s ns l]
  show ?thesis by auto
qed

lemma Parse_utc_tloc: "Parse layout v = Inr u \<Longrightarrow> tloc u = UTC"
  by (auto simp: ParseInLocation_def Parse_def Let_def tloc_Date split: option.splits if_splits)

text \<open>
  Claim C4. \<^verbatim>\<open>parseICalTime\<close> by cases, for every value. A value ending in \<open>Z\<close> is
  parsed by \<^verbatim>\<open>time.Parse\<close>, whose result is in UTC; \<open>20240615T140000Z\<close> is 14:00 UTC of
  that day, Unix second 1718460000. A value without the suffix whose property has a
  TZID list with a first element that loads is parsed by \<^verbatim>\<open>time.ParseInLocation\<close> in
  the zone loaded. With no TZID parameter or an empty list it is parsed in the local
  zone. A time parsed in a location is the UTC reading of the same digits moved by
  an offset of that location, and carries the location.
\<close>

theorem C4_parseICalTime_cases:
  "(HasSuffix val ''Z'' \<longrightarrow> parseICalTime e val pr = Parse ''20060102T150405Z'' val)
   \<and> (\<not> HasSuffix val ''Z'' \<and> ICalParameters pr ''TZID'' = Some (z # zs)
        \<and> LoadLocation e z = Inr l
      \<longrightarrow> parseICalTime e val pr = ParseInLocation ''20060102T150405'' val l)
   \<and> (\<not> HasSuffix val ''Z''
        \<and> (ICalParameters pr ''TZID'' = None \<or> ICalParameters pr ''TZID'' = Some [])
      \<longrightarrow> parseICalTime e val pr = ParseInLocation ''20060102T150405'' val (Local e))
   \<and> parseICalTime e ''20240615T140000Z'' pr = Inr (Date 2024 6 15 14 0 0 0 UTC)
   \<and> Date 2024 6 15 14 0 0 0 UTC = \<lparr>unixNano = 1718460000000000000, tloc = UTC\<rparr>
   \<and> (Parse layout val = Inr u \<longrightarrow> tloc u = UTC)
   \<and> (ParseInLocation layout val l = Inr t
      \<longrightarrow> (\<exists>u w. Parse layout val = Inr u
             \<and> unixNano t = unixNano u - fst (lookup l w) * 1000000000 \<and> tloc t = l))"
proof (intro conjI impI)
  show "parseICalTime e ''20240615T140000Z'' pr = Inr (Date 2024 6 15 14 0 0 0 UTC)"
    by (simp add: parseICalTime_def HasSuffix_def scan_defs civil_defs)
  show "Date 2024 6 15 14 0 0 0 UTC = \<lparr>unixNano = 1718460000000000000, tloc = UTC\<rparr>"
    by (simp add: Date_UTC civil_defs)
  show "\<exists>u w. Parse layout val = Inr u
             \<and> unixNano t = unixNano u - fst (lookup l w) * 1000000000 \<and> tloc t = l"
    if "ParseInLocation layout val l = Inr t"
    using that by (rule ParseInLocation_wall_clock)
  show "tloc u = UTC" if "Parse layout val = Inr u"
    using that by (rule Parse_utc_tloc)
qed (auto simp: parseICalTime_def)

text \<open>
  09:00 in New York on 15 June 2024 is 13:00 UTC; the same reading without a TZID, in a
  process one hour east of UTC, is 08:00 UTC.
\<close>

lemma ParseInLocation_new_york:
  "ParseInLocation ''20060102T150405'' ''20240615T090000'' newYork2024 =
   Inr \<lparr>unixNano = 1718456400000000000, tloc = newYork2024\<rparr>"
  by (simp add: scan_defs civil_defs Date_def newYork2024_def)

lemma ParseInLocation_cet:
  "ParseInLocation ''20060102T150405'' ''20240615T090000'' (FixedZone ''CET'' 3600) =
   Inr \<lparr>unixNano = 1718438400000000000, tloc = FixedZone ''CET'' 3600\<rparr>"
  by (simp add: scan_defs civil_defs Date_def FixedZone_def alpha_def omega_def)

text \<open>The three cases at sample inputs.\<close>

theorem C4_parseICalTime_cases_witness:
  "HasSuffix ''20240615T140000Z'' ''Z''
   \<and> parseICalTime env_cet ''20240615T140000Z'' dtstart_new_york
       = Inr \<lparr>unixNano = 1718460000000000000, tloc = UTC\<rparr>
   \<and> parseICalTime env_cet ''20240615T090000'' dtstart_new_york
       = Inr \<lparr>unixNano = 1718456400000000000, tloc = newYork2024\<rparr>
   \<and> parseICalTime env_cet ''20240615T090000'' (textProp ''DTSTART'' ''20240615T090000'')
       = Inr \<lparr>unixNano = 1718438400000000000, tloc = FixedZone ''CET'' 3600\<rparr>"
proof -
  have z: "HasSuffix ''20240615T140000Z'' ''Z''"
    by (simp add: HasSuffix_def)
  have nz: "\<not> HasSuffix ''20240615T090000'' ''Z''"
    by (simp add: HasSuffix_def)
  have tz: "ICalParameters dtstart_new_york ''TZID'' = Some (''America/New_York'' # [])"
    by (simp add: dtstart_new_york_def paramProp_def)
  have ld: "LoadLocation env_cet ''America/New_York'' = Inr newYork2024"
    by (simp add: LoadLocation_def env_cet_def sampleZones_def)
  have no: "ICalParameters (textProp ''DTSTART'' ''20240615T090000'') ''TZID'' = None"
    by (simp add: textProp_def)
  have lc: "Local env_cet = FixedZone ''CET'' 3600"
    by (simp add: env_cet_def)
  note a = C4_parseICalTime_cases [of "''20240615T140000Z''" env_cet dtstart_new_york]
  note b = C4_parseICalTime_cases [of "''20240615T090000''" env_cet dtstart_new_york
      "''America/New_York''" "[]" newYork2024]
  note c = C4_parseICalTime_cases [of "''20240615T090000''" env_cet
      "textProp ''DTSTART'' ''20240615T090000''"]
  from a have "parseICalTime env_cet ''20240615T140000Z'' dtstart_new_york
       = Inr \<lparr>unixNano = 1718460000000000000, tloc = UTC\<rparr>"
    by simp
  moreover from b nz tz ld
  have "parseICalTime env_cet ''20240615T090000'' dtstart_new_york
       = Inr \<lparr>unixNano = 1718456400000000000, tloc = newYork2024\<rparr>"
    by (simp add: ParseInLocation_new_york)
  moreover from c nz no lc
  have "parseICalTime env_cet ''20240615T090000'' (textProp ''DTSTART'' ''20240615T090000'')
       = Inr \<lparr>unixNano = 1718438400000000000, tloc = FixedZone ''CET'' 3600\<rparr>"
    by (simp add: ParseInLocation_cet)
  ultimately show ?thesis
    using z by (intro conjI)
qed

subsection \<open>Start, end and the overlap test\<close>

lemma parseEvent_times:
  assumes "GetProperty v ComponentPropertyDtStart = Some sp"
    and "parseTimes e sp (GetProperty v ComponentPropertyDtEnd) = Inr (s, t, a)"
  shows "parseEvent e v w0 w1 =
         (if unixNano t > unixNano w0 \<and> unixNano s < unixNano w1
          then makeEvent (GetProperty v ComponentPropertyUniqueId)
                 (GetProperty v ComponentPropertySummary)
                 (GetProperty v ComponentPropertyDescription)
                 (GetProperty v ComponentPropertyLocation)
                 (adjustTZ e sp s)
                 (case GetProperty v ComponentPropertyDtEnd of
                    Some ep \<Rightarrow> adjustTZ e ep t | None \<Rightarrow> t)
                 a
          else Ok None)"
proof -
  have "unixNano (case GetProperty v ComponentPropertyDtEnd of
                    Some ep \<Rightarrow> adjustTZ e ep t | None \<Rightarrow> t) = unixNano t"
    by (simp add: unixNano_adjustTZ split: option.splits)
  then show ?thesis
    using assms
    by (simp add: parseEvent_def Let_def After_def Before_def unixNano_adjustTZ)
qed

lemma parseEvent_Err_iff:
  assumes "GetProperty v ComponentPropertyDtStart = Some sp"
  shows "parseEvent e v w0 w1 = Err err \<longleftrightarrow>
         parseTimes e sp (GetProperty v ComponentPropertyDtEnd) = Inl err"
proof (cases "parseTimes e sp (GetProperty v ComponentPropertyDtEnd)")
  case (Inl x)
  with assms show ?thesis by (simp add: parseEvent_def)
next
  case (Inr r)
  obtain s t a where r: "r = (s, t, a)" by (cases r)
  have "parseEvent e v w0 w1 \<noteq> Err err"
    unfolding parseEvent_times [OF assms Inr [unfolded r]]
    by (simp add: makeEvent_def split: option.splits)
  with Inr show ?thesis by simp
qed

lemma makeEvent_Some:
  "makeEvent u sm d l s t a = Ok (Some ev) \<Longrightarrow> Start ev = s \<and> End ev = t \<and> AllDay ev = a"
  by (auto simp: makeEvent_def split: option.splits)

lemma parseTimes_no_end:
  "parseTimes e sp None =
     (if isAllDay sp
      then (case Parse ''20060102'' (Value sp) of
              Inl err \<Rightarrow> Inl err
            | Inr start \<Rightarrow> Inr (start, Add start (24 * Hour), True))
      else (case parseICalTime e (Value sp) sp of
              Inl err \<Rightarrow> Inl err
            | Inr start \<Rightarrow> Inr (start, start, False)))"
  by (simp add: parseTimes_def cong: sum.case_cong)

text \<open>
  Claim C5. For a component with a start property and no end property, the times are
  the parsed start and a default end: the start plus 24 hours, flagged all-day, when
  the start's first VALUE is DATE, and the start itself otherwise. \<^verbatim>\<open>parseEvent\<close>
  returns an error exactly when parsing the start does (the same error), so never on
  account of the missing end; and an event it returns ends 24 hours, respectively
  zero time, after its start.
\<close>

theorem C5_missing_end_default:
  assumes "GetProperty v ComponentPropertyDtStart = Some sp"
    and "GetProperty v ComponentPropertyDtEnd = None"
  shows "parseTimes e sp None =
           (if isAllDay sp
            then (case Parse ''20060102'' (Value sp) of
                    Inl err \<Rightarrow> Inl err
                  | Inr start \<Rightarrow> Inr (start, Add start (24 * Hour), True))
            else (case parseICalTime e (Value sp) sp of
                    Inl err \<Rightarrow> Inl err
                  | Inr start \<Rightarrow> Inr (start, start, False)))
       \<and> (parseEvent e v w0 w1 = Err err \<longleftrightarrow>
            (if isAllDay sp then Parse ''20060102'' (Value sp)
             else parseICalTime e (Value sp) sp) = Inl err)
       \<and> (parseEvent e v w0 w1 = Ok (Some ev) \<longrightarrow>
            (\<exists>s. (if isAllDay sp then Parse ''20060102'' (Value sp)
                  else parseICalTime e (Value sp) sp) = Inr s
               \<and> unixNano (Start ev) = unixNano s
               \<and> unixNano (End ev) = unixNano s + (if isAllDay sp then 24 * Hour else 0)
               \<and> AllDay ev = isAllDay sp))"
proof -
  let ?P = "if isAllDay sp then Parse ''20060102'' (Value sp)
            else parseICalTime e (Value sp) sp"
  let ?d = "if isAllDay sp then 24 * Hour else 0"
  have pt: "parseTimes e sp (GetProperty v ComponentPropertyDtEnd) =
            (case ?P of Inl err \<Rightarrow> Inl err
             | Inr start \<Rightarrow> Inr (start, Add start ?d, isAllDay sp))"
    by (simp add: assms(2) parseTimes_def Add_def split: sum.splits)
  have err: "parseEvent e v w0 w1 = Err err \<longleftrightarrow> ?P = Inl err"
    unfolding parseEvent_Err_iff [OF assms(1)] pt by (simp split: sum.splits)
  have ok: "\<exists>s. ?P = Inr s \<and> unixNano (Start ev) = unixNano s
               \<and> unixNano (End ev) = unixNano s + ?d \<and> AllDay ev = isAllDay sp"
    if res: "parseEvent e v w0 w1 = Ok (Some ev)"
  proof (cases ?P)
    case (Inl x)
    then have "parseEvent e v w0 w1 = Err x"
      unfolding parseEvent_Err_iff [OF assms(1)] pt by simp
    with res show ?thesis by simp
  next
    case (Inr s)
    then have "parseTimes e sp (GetProperty v ComponentPropertyDtEnd) =
               Inr (s, Add s ?d, isAllDay sp)"
      unfolding pt by simp
    from parseEvent_times [OF assms(1) this, of w0 w1] res
    have "makeEvent (GetProperty v ComponentPropertyUniqueId)
                 (GetProperty v ComponentPropertySummary)
                 (GetProperty v ComponentPropertyDescription)
                 (GetProperty v ComponentPropertyLocation)
                 (adjustTZ e sp s) (Add s ?d) (isAllDay sp) = Ok (Some ev)"
      by (simp add: assms(2) split: if_splits)
    from makeEvent_Some [OF this]
    have "unixNano (Start ev) = unixNano s" "unixNano (End ev) = unixNano s + ?d"
      "AllDay ev = isAllDay sp"
      by (simp_all add: unixNano_adjustTZ Add_def)
    with Inr show ?thesis by blast
  qed
  from err ok show ?thesis
    by (simp only: parseTimes_no_end simp_thms) blast
qed


text \<open>The sample all-day event and a sample timed event, both without an end.\<close>

lemma Parse_20240301:
  "Parse ''20060102'' ''20240301'' = Inr \<lparr>unixNano = 1709251200000000000, tloc = UTC\<rparr>"
  by (simp add: scan_defs Date_UTC civil_defs)

lemma Parse_20240302:
  "Parse ''20060102'' ''20240302'' = Inr \<lparr>unixNano = 1709337600000000000, tloc = UTC\<rparr>"
  by (simp add: scan_defs Date_UTC civil_defs)

lemma start_ev_allday_0301:
  "GetProperty ev_allday_0301 ComponentPropertyDtStart =
   Some (paramProp ''DTSTART'' ''VALUE'' [''DATE''] ''20240301'')"
  by (simp add: ev_allday_0301_def sample_defs)

lemma end_ev_allday_0301: "GetProperty ev_allday_0301 ComponentPropertyDtEnd = None"
  by (simp add: ev_allday_0301_def sample_defs)

lemma isAllDay_sample: "isAllDay (paramProp ''DTSTART'' ''VALUE'' [''DATE''] ''20240301'')"
  by (simp add: isAllDay_def paramProp_def)

lemma start_ev_timed: "GetProperty (ev_timed s) ComponentPropertyDtStart = Some (textProp ''DTSTART'' s)"
  by (simp add: ev_timed_def sample_defs)

lemma end_ev_timed: "GetProperty (ev_timed s) ComponentPropertyDtEnd = None"
  by (simp add: ev_timed_def sample_defs)

lemma not_isAllDay_textProp: "\<not> isAllDay (textProp tok s)"
  by (simp add: isAllDay_def textProp_def)

lemma Value_paramProp: "Value (paramProp tok n vs s) = s"
  by (simp add: paramProp_def)

lemma Value_textProp: "Value (textProp tok s) = s"
  by (simp add: textProp_def)

lemma parseICalTime_Z:
  "HasSuffix s ''Z'' \<Longrightarrow> parseICalTime e s pr = Parse ''20060102T150405Z'' s"
  by (simp add: parseICalTime_def)

text \<open>
  \<^verbatim>\<open>DTSTART;VALUE=DATE:20240301\<close> alone ends where 2 March 2024 starts;
  \<^verbatim>\<open>DTSTART:20240301T100000Z\<close> alone ends when it starts.
\<close>

theorem C5_missing_end_default_witness:
  "GetProperty ev_allday_0301 ComponentPropertyDtStart =
     Some (paramProp ''DTSTART'' ''VALUE'' [''DATE''] ''20240301'')
   \<and> GetProperty ev_allday_0301 ComponentPropertyDtEnd = None
   \<and> parseTimes env_utc (paramProp ''DTSTART'' ''VALUE'' [''DATE''] ''20240301'') None =
       Inr (\<lparr>unixNano = 1709251200000000000, tloc = UTC\<rparr>,
            \<lparr>unixNano = 1709337600000000000, tloc = UTC\<rparr>, True)
   \<and> Parse ''20060102'' ''20240302'' = Inr \<lparr>unixNano = 1709337600000000000, tloc = UTC\<rparr>
   \<and> GetProperty (ev_timed ''20240301T100000Z'') ComponentPropertyDtStart =
       Some (textProp ''DTSTART'' ''20240301T100000Z'')
   \<and> GetProperty (ev_timed ''20240301T100000Z'') ComponentPropertyDtEnd = None
   \<and> parseTimes env_utc (textProp ''DTSTART'' ''20240301T100000Z'') None =
       Inr (\<lparr>unixNano = 1709287200000000000, tloc = UTC\<rparr>,
            \<lparr>unixNano = 1709287200000000000, tloc = UTC\<rparr>, False)"
proof -
  note a = C5_missing_end_default [OF start_ev_allday_0301 end_ev_allday_0301, of env_utc,
      THEN conjunct1]
  note b = C5_missing_end_default [OF start_ev_timed end_ev_timed,
      of env_utc "''20240301T100000Z''", THEN conjunct1]
  from a have "parseTimes env_utc (paramProp ''DTSTART'' ''VALUE'' [''DATE''] ''20240301'') None =
       Inr (\<lparr>unixNano = 1709251200000000000, tloc = UTC\<rparr>,
            \<lparr>unixNano = 1709337600000000000, tloc = UTC\<rparr>, True)"
    by (simp add: isAllDay_sample Value_paramProp Parse_20240301 Add_def Hour_def)
  moreover from b have "parseTimes env_utc (textProp ''DTSTART'' ''20240301T100000Z'') None =
       Inr (\<lparr>unixNano = 1709287200000000000, tloc = UTC\<rparr>,
            \<lparr>unixNano = 1709287200000000000, tloc = UTC\<rparr>, False)"
    by (simp add: not_isAllDay_textProp Value_textProp parseICalTime_Z HasSuffix_def
        Parse_1000Z)
  ultimately show ?thesis
    using start_ev_allday_0301 end_ev_allday_0301 start_ev_timed end_ev_timed Parse_20240302
    by (intro conjI)
qed

subsection \<open>A zone name that does not load\<close>

lemma parseICalTime_unresolvable:
  assumes "\<not> HasSuffix val ''Z''" and "ICalParameters pr ''TZID'' = Some (z # zs)"
    and "LoadLocation e z = Inl err"
  shows "parseICalTime e val pr = Inl err"
  using assms by (simp add: parseICalTime_def)

lemma adjustTZ_unresolvable:
  assumes "ICalParameters pr ''TZID'' = Some (z # zs)" and "LoadLocation e z = Inl err"
  shows "adjustTZ e pr t = t"
  using assms by (simp add: adjustTZ_def)

text \<open>
  Claim C2, as amended. For a timed component, a start value (or, the start having
  parsed, an end value) that does not end in \<open>Z\<close> and whose TZID list begins with a
  name that \<^verbatim>\<open>LoadLocation\<close> rejects makes \<^verbatim>\<open>parseICalTime\<close> return that error,
  \<^verbatim>\<open>parseEvent\<close> fail with it, and the handler treat the document as if the component
  were not there. Only the secondary adjustment drops the error and keeps the time
  it was given.
\<close>

theorem C2_unresolvable_tzid_error:
  assumes "GetProperty v ComponentPropertyDtStart = Some sp" and "\<not> isAllDay sp"
  shows "(\<not> HasSuffix val ''Z'' \<and> ICalParameters pr ''TZID'' = Some (z # zs)
            \<and> LoadLocation e z = Inl err
          \<longrightarrow> parseICalTime e val pr = Inl err)
       \<and> (\<not> HasSuffix (Value sp) ''Z'' \<and> ICalParameters sp ''TZID'' = Some (z # zs)
            \<and> LoadLocation e z = Inl err
          \<longrightarrow> parseEvent e v w0 w1 = Err err
              \<and> caljsonHandler e (xs @ VEvent v # ys) w0 w1 = caljsonHandler e (xs @ ys) w0 w1)
       \<and> (parseICalTime e (Value sp) sp = Inr s
            \<and> GetProperty v ComponentPropertyDtEnd = Some ep
            \<and> \<not> HasSuffix (Value ep) ''Z'' \<and> ICalParameters ep ''TZID'' = Some (z # zs)
            \<and> LoadLocation e z = Inl err
          \<longrightarrow> parseEvent e v w0 w1 = Err err
              \<and> caljsonHandler e (xs @ VEvent v # ys) w0 w1 = caljsonHandler e (xs @ ys) w0 w1)
       \<and> (ICalParameters pr ''TZID'' = Some (z # zs) \<and> LoadLocation e z = Inl err
          \<longrightarrow> adjustTZ e pr t = t)"
proof (intro conjI impI)
  assume "\<not> HasSuffix val ''Z'' \<and> ICalParameters pr ''TZID'' = Some (z # zs)
            \<and> LoadLocation e z = Inl err"
  then show "parseICalTime e val pr = Inl err"
    by (simp add: parseICalTime_unresolvable)
next
  assume h: "\<not> HasSuffix (Value sp) ''Z'' \<and> ICalParameters sp ''TZID'' = Some (z # zs)
            \<and> LoadLocation e z = Inl err"
  then have "parseICalTime e (Value sp) sp = Inl err"
    by (simp add: parseICalTime_unresolvable)
  then have "parseTimes e sp (GetProperty v ComponentPropertyDtEnd) = Inl err"
    using assms(2) by (simp add: parseTimes_def)
  then show r: "parseEvent e v w0 w1 = Err err"
    by (simp add: parseEvent_Err_iff [OF assms(1)])
  from r show "caljsonHandler e (xs @ VEvent v # ys) w0 w1 = caljsonHandler e (xs @ ys) w0 w1"
    by (rule caljsonHandler_skip)
next
  assume h: "parseICalTime e (Value sp) sp = Inr s
            \<and> GetProperty v ComponentPropertyDtEnd = Some ep
            \<and> \<not> HasSuffix (Value ep) ''Z'' \<and> ICalParameters ep ''TZID'' = Some (z # zs)
            \<and> LoadLocation e z = Inl err"
  then have "parseICalTime e (Value ep) ep = Inl err"
    by (simp add: parseICalTime_unresolvable)
  with h have "parseTimes e sp (GetProperty v ComponentPropertyDtEnd) = Inl err"
    using assms(2) by (simp add: parseTimes_def)
  then show r: "parseEvent e v w0 w1 = Err err"
    by (simp add: parseEvent_Err_iff [OF assms(1)])
  from r show "caljsonHandler e (xs @ VEvent v # ys) w0 w1 = caljsonHandler e (xs @ ys) w0 w1"
    by (rule caljsonHandler_skip)
next
  assume "ICalParameters pr ''TZID'' = Some (z # zs) \<and> LoadLocation e z = Inl err"
  then show "adjustTZ e pr t = t"
    by (simp add: adjustTZ_unresolvable)
qed

lemma start_ev_bogus_tzid:
  "GetProperty ev_bogus_tzid ComponentPropertyDtStart =
   Some (paramProp ''DTSTART'' ''TZID'' [''Nowhere/Bogus''] ''20240615T090000'')"
  by (simp add: ev_bogus_tzid_def sample_defs)

lemma not_isAllDay_bogus:
  "\<not> isAllDay (paramProp ''DTSTART'' ''TZID'' [''Nowhere/Bogus''] ''20240615T090000'')"
  by (simp add: isAllDay_def paramProp_def)

lemma tzid_bogus:
  "ICalParameters (paramProp ''DTSTART'' ''TZID'' [''Nowhere/Bogus''] ''20240615T090000'') ''TZID''
   = Some (''Nowhere/Bogus'' # [])"
  by (simp add: paramProp_def)

lemma LoadLocation_bogus:
  "LoadLocation env_utc ''Nowhere/Bogus'' = Inl (UnknownTimeZone ''Nowhere/Bogus'')"
  by (simp add: LoadLocation_def env_utc_def sampleZones_def)

lemma not_Z_090000: "\<not> HasSuffix ''20240615T090000'' ''Z''"
  by (simp add: HasSuffix_def)

text \<open>\<^verbatim>\<open>DTSTART;TZID=Nowhere/Bogus:20240615T090000\<close> in a process that knows no such zone.\<close>

theorem C2_unresolvable_tzid_error_witness:
  "GetProperty ev_bogus_tzid ComponentPropertyDtStart =
     Some (paramProp ''DTSTART'' ''TZID'' [''Nowhere/Bogus''] ''20240615T090000'')
   \<and> \<not> isAllDay (paramProp ''DTSTART'' ''TZID'' [''Nowhere/Bogus''] ''20240615T090000'')
   \<and> \<not> HasSuffix ''20240615T090000'' ''Z''
   \<and> LoadLocation env_utc ''Nowhere/Bogus'' = Inl (UnknownTimeZone ''Nowhere/Bogus'')
   \<and> parseICalTime env_utc ''20240615T090000''
        (paramProp ''DTSTART'' ''TZID'' [''Nowhere/Bogus''] ''20240615T090000'')
       = Inl (UnknownTimeZone ''Nowhere/Bogus'')
   \<and> parseEvent env_utc ev_bogus_tzid
        (fst (targetWindow env_utc 2024 6 15)) (snd (targetWindow env_utc 2024 6 15))
       = Err (UnknownTimeZone ''Nowhere/Bogus'')
   \<and> adjustTZ env_utc (paramProp ''DTSTART'' ''TZID'' [''Nowhere/Bogus''] ''20240615T090000'')
        \<lparr>unixNano = 1718442000000000000, tloc = UTC\<rparr>
       = \<lparr>unixNano = 1718442000000000000, tloc = UTC\<rparr>"
proof -
  let ?sp = "paramProp ''DTSTART'' ''TZID'' [''Nowhere/Bogus''] ''20240615T090000''"
  note th = C2_unresolvable_tzid_error [OF start_ev_bogus_tzid not_isAllDay_bogus,
      of "''20240615T090000''" ?sp "''Nowhere/Bogus''" "[]" env_utc
         "UnknownTimeZone ''Nowhere/Bogus''"
         "fst (targetWindow env_utc 2024 6 15)" "snd (targetWindow env_utc 2024 6 15)"]
  have v: "Value ?sp = ''20240615T090000''"
    by (rule Value_paramProp)
  from th [THEN conjunct1] not_Z_090000 tzid_bogus LoadLocation_bogus
  have a: "parseICalTime env_utc ''20240615T090000'' ?sp = Inl (UnknownTimeZone ''Nowhere/Bogus'')"
    by simp
  from th [THEN conjunct2, THEN conjunct1] not_Z_090000 tzid_bogus LoadLocation_bogus v
  have b: "parseEvent env_utc ev_bogus_tzid
        (fst (targetWindow env_utc 2024 6 15)) (snd (targetWindow env_utc 2024 6 15))
       = Err (UnknownTimeZone ''Nowhere/Bogus'')"
    by simp
  from th [THEN conjunct2, THEN conjunct2, THEN conjunct2] tzid_bogus LoadLocation_bogus
  have c: "adjustTZ env_utc ?sp \<lparr>unixNano = 1718442000000000000, tloc = UTC\<rparr>
       = \<lparr>unixNano = 1718442000000000000, tloc = UTC\<rparr>"
    by simp
  from start_ev_bogus_tzid not_isAllDay_bogus not_Z_090000 LoadLocation_bogus a b c
  show ?thesis by (intro conjI)
qed

text \<open>
  Claim C2 as stated fails: the component above is a timed event whose start lacks
  the suffix and names a zone that does not load. Extraction fails with the zone
  error and the handler returns no event for it, although the same start without
  the TZID parameter lies in the window and is returned.
\<close>

theorem C2_unresolvable_tzid_counterexample:
  "ICalParameters (paramProp ''DTSTART'' ''TZID'' [''Nowhere/Bogus''] ''20240615T090000'') ''TZID''
     = Some [''Nowhere/Bogus'']
   \<and> \<not> HasSuffix ''20240615T090000'' ''Z''
   \<and> LoadLocation env_utc ''Nowhere/Bogus'' = Inl (UnknownTimeZone ''Nowhere/Bogus'')
   \<and> parseEvent env_utc ev_bogus_tzid
        (fst (targetWindow env_utc 2024 6 15)) (snd (targetWindow env_utc 2024 6 15))
       = Err (UnknownTimeZone ''Nowhere/Bogus'')
   \<and> caljsonHandler env_utc [VEvent ev_bogus_tzid]
        (fst (targetWindow env_utc 2024 6 15)) (snd (targetWindow env_utc 2024 6 15))
       = Ok []
   \<and> parseEvent env_utc (ev_timed ''20240615T090000'')
        (fst (targetWindow env_utc 2024 6 15)) (snd (targetWindow env_utc 2024 6 15))
       = Ok (Some \<lparr>UID = ''uid-1'', Summary = ''Standup'', Description = ''Daily'',
                   Location = ''Room 1'',
                   Start = \<lparr>unixNano = 1718442000000000000, tloc = UTC\<rparr>,
                   End = \<lparr>unixNano = 1718442000000000000, tloc = UTC\<rparr>, AllDay = False\<rparr>)"
proof -
  have same: "parseEvent env_utc (ev_timed ''20240615T090000'')
        (fst (targetWindow env_utc 2024 6 15)) (snd (targetWindow env_utc 2024 6 15))
       = Ok (Some \<lparr>UID = ''uid-1'', Summary = ''Standup'', Description = ''Daily'',
                   Location = ''Room 1'',
                   Start = \<lparr>unixNano = 1718442000000000000, tloc = UTC\<rparr>,
                   End = \<lparr>unixNano = 1718442000000000000, tloc = UTC\<rparr>, AllDay = False\<rparr>)"
    by (simp add: parseEvent_def ev_timed_def sample_defs parseTimes_def isAllDay_def
        parseICalTime_def adjustTZ_def makeEvent_def HasSuffix_def env_utc_def
        scan_defs Date_UTC civil_defs targetWindow_def Add_def Hour_def After_def Before_def)
  let ?sp = "paramProp ''DTSTART'' ''TZID'' [''Nowhere/Bogus''] ''20240615T090000''"
  have "parseICalTime env_utc (Value ?sp) ?sp = Inl (UnknownTimeZone ''Nowhere/Bogus'')"
    unfolding Value_paramProp
    using not_Z_090000 tzid_bogus LoadLocation_bogus by (rule parseICalTime_unresolvable)
  then have "parseTimes env_utc ?sp (GetProperty ev_bogus_tzid ComponentPropertyDtEnd) =
             Inl (UnknownTimeZone ''Nowhere/Bogus'')"
    using not_isAllDay_bogus by (simp add: parseTimes_def)
  then have r: "parseEvent env_utc ev_bogus_tzid w0 w1 = Err (UnknownTimeZone ''Nowhere/Bogus'')"
    for w0 w1
    by (simp add: parseEvent_Err_iff [OF start_ev_bogus_tzid])
  then have "caljsonHandler env_utc [VEvent ev_bogus_tzid]
        (fst (targetWindow env_utc 2024 6 15)) (snd (targetWindow env_utc 2024 6 15))
       = Ok []"
    by (simp add: caljsonHandler_def sortSlice_def)
  with r tzid_bogus not_Z_090000 LoadLocation_bogus same show ?thesis
    by (intro conjI)
qed

subsection \<open>The overlap test and the four text properties\<close>

lemma makeEvent_Ok_iff:
  "(\<exists>ev. makeEvent u sm d l s t a = Ok (Some ev)) \<longleftrightarrow>
   u \<noteq> None \<and> sm \<noteq> None \<and> d \<noteq> None \<and> l \<noteq> None"
  by (cases u; cases sm; cases d; cases l) (simp_all add: makeEvent_def)

lemma makeEvent_Panic_iff:
  "makeEvent u sm d l s t a = Panic \<longleftrightarrow> u = None \<or> sm = None \<or> d = None \<or> l = None"
  by (cases u; cases sm; cases d; cases l) (simp_all add: makeEvent_def)

lemma makeEvent_not_absent: "makeEvent u sm d l s t a \<noteq> Ok None"
  by (cases u; cases sm; cases d; cases l) (simp_all add: makeEvent_def)

text \<open>
  The overlap rule, for a component whose times parse to \<open>s\<close> and \<open>t\<close>: the component
  is left out exactly when the intervals do not overlap; it is returned as an event
  exactly when they overlap and the four text properties are there.
\<close>

lemma parseEvent_overlap:
  assumes "GetProperty v ComponentPropertyDtStart = Some sp"
    and "parseTimes e sp (GetProperty v ComponentPropertyDtEnd) = Inr (s, t, a)"
    and "unixNano t > unixNano w0" and "unixNano s < unixNano w1"
  shows "parseEvent e v w0 w1 =
         makeEvent (GetProperty v ComponentPropertyUniqueId)
                 (GetProperty v ComponentPropertySummary)
                 (GetProperty v ComponentPropertyDescription)
                 (GetProperty v ComponentPropertyLocation)
                 (adjustTZ e sp s)
                 (case GetProperty v ComponentPropertyDtEnd of
                    Some ep \<Rightarrow> adjustTZ e ep t | None \<Rightarrow> t)
                 a"
  unfolding parseEvent_times [OF assms(1,2)] using assms(3,4) by simp

lemma parseEvent_no_overlap:
  assumes "GetProperty v ComponentPropertyDtStart = Some sp"
    and "parseTimes e sp (GetProperty v ComponentPropertyDtEnd) = Inr (s, t, a)"
    and "\<not> (unixNano t > unixNano w0 \<and> unixNano s < unixNano w1)"
  shows "parseEvent e v w0 w1 = Ok None"
  unfolding parseEvent_times [OF assms(1,2)] if_not_P [OF assms(3)] by (rule refl)

lemma parseEvent_absent_iff:
  assumes "GetProperty v ComponentPropertyDtStart = Some sp"
    and "parseTimes e sp (GetProperty v ComponentPropertyDtEnd) = Inr (s, t, a)"
  shows "parseEvent e v w0 w1 = Ok None \<longleftrightarrow>
         \<not> (unixNano t > unixNano w0 \<and> unixNano s < unixNano w1)"
proof (cases "unixNano t > unixNano w0 \<and> unixNano s < unixNano w1")
  case True
  then have "parseEvent e v w0 w1 \<noteq> Ok None"
    using parseEvent_overlap [OF assms] by (simp add: makeEvent_not_absent)
  with True show ?thesis by blast
next
  case False
  from parseEvent_no_overlap [OF assms False] False show ?thesis by blast
qed

lemma parseEvent_event_iff:
  assumes "GetProperty v ComponentPropertyDtStart = Some sp"
    and "parseTimes e sp (GetProperty v ComponentPropertyDtEnd) = Inr (s, t, a)"
    and "GetProperty v ComponentPropertyUniqueId \<noteq> None"
    and "GetProperty v ComponentPropertySummary \<noteq> None"
    and "GetProperty v ComponentPropertyDescription \<noteq> None"
    and "GetProperty v ComponentPropertyLocation \<noteq> None"
  shows "(\<exists>ev. parseEvent e v w0 w1 = Ok (Some ev)) \<longleftrightarrow>
         unixNano t > unixNano w0 \<and> unixNano s < unixNano w1"
proof (cases "unixNano t > unixNano w0 \<and> unixNano s < unixNano w1")
  case True
  then have "\<exists>ev. parseEvent e v w0 w1 = Ok (Some ev)"
    using parseEvent_overlap [OF assms(1,2)] assms(3-6) by (simp add: makeEvent_Ok_iff)
  with True show ?thesis by blast
next
  case False
  from parseEvent_no_overlap [OF assms(1,2) False]
  have "\<not> (\<exists>ev. parseEvent e v w0 w1 = Ok (Some ev))" by simp
  with False show ?thesis by blast
qed

lemma parseEvent_Panic_iff:
  assumes "GetProperty v ComponentPropertyDtStart = Some sp"
    and "parseTimes e sp (GetProperty v ComponentPropertyDtEnd) = Inr (s, t, a)"
  shows "parseEvent e v w0 w1 = Panic \<longleftrightarrow>
         (unixNano t > unixNano w0 \<and> unixNano s < unixNano w1)
         \<and> (GetProperty v ComponentPropertyUniqueId = None
            \<or> GetProperty v ComponentPropertySummary = None
            \<or> GetProperty v ComponentPropertyDescription = None
            \<or> GetProperty v ComponentPropertyLocation = None)"
proof (cases "unixNano t > unixNano w0 \<and> unixNano s < unixNano w1")
  case True
  then show ?thesis
    using parseEvent_overlap [OF assms] by (simp add: makeEvent_Panic_iff)
next
  case False
  from parseEvent_no_overlap [OF assms False]
  have "parseEvent e v w0 w1 \<noteq> Panic" by simp
  with False show ?thesis by blast
qed

lemma collectEvents_not_Err: "collectEvents e cs w0 w1 acc \<noteq> Err x"
proof (induction cs arbitrary: acc)
  case Nil
  show ?case by simp
next
  case (Cons c cs)
  show ?case
  proof (cases c)
    case OtherComponent
    with Cons show ?thesis by simp
  next
    case (VEvent v)
    show ?thesis
    proof (cases "parseEvent e v w0 w1")
      case (Ok r)
      with VEvent Cons show ?thesis by (cases r) simp_all
    next
      case (Err err)
      with VEvent Cons show ?thesis by simp
    next
      case Panic
      with VEvent show ?thesis by simp
    qed
  qed
qed

lemma caljsonHandler_Panic:
  assumes "parseEvent e v w0 w1 = Panic"
  shows "caljsonHandler e (xs @ VEvent v # ys) w0 w1 = Panic"
proof (cases "collectEvents e xs w0 w1 []")
  case (Ok es)
  with assms show ?thesis
    by (simp add: caljsonHandler_def collectEvents_append [of e xs])
next
  case (Err x)
  with collectEvents_not_Err [of e xs w0 w1 "[]" x] show ?thesis by simp
next
  case Panic
  then show ?thesis
    by (simp add: caljsonHandler_def collectEvents_append [of e xs])
qed

text \<open>
  Claim C3 says that a component whose start parses and whose interval overlaps the
  window is returned with empty strings for the text properties it lacks. The program
  does otherwise: whenever the times parse and overlap the window and one of the
  unique-id, summary, description and location properties is absent, \<^verbatim>\<open>parseEvent\<close>
  panics on the \<^verbatim>\<open>nil\<close> property, and so does the handler for every document that
  holds the component.
\<close>

theorem C3_absent_text_property_panics:
  assumes "GetProperty v ComponentPropertyDtStart = Some sp"
    and "parseTimes e sp (GetProperty v ComponentPropertyDtEnd) = Inr (s, t, a)"
    and "unixNano t > unixNano w0" and "unixNano s < unixNano w1"
    and "GetProperty v ComponentPropertyUniqueId = None
         \<or> GetProperty v ComponentPropertySummary = None
         \<or> GetProperty v ComponentPropertyDescription = None
         \<or> GetProperty v ComponentPropertyLocation = None"
  shows "parseEvent e v w0 w1 = Panic
       \<and> caljsonHandler e (xs @ VEvent v # ys) w0 w1 = Panic"
proof -
  have p: "parseEvent e v w0 w1 = Panic"
    unfolding parseEvent_Panic_iff [OF assms(1,2)] using assms(3-5) by simp
  from p caljsonHandler_Panic [OF p] show ?thesis by simp
qed


text \<open>Two sample components that lack text properties.\<close>

lemma Parse_1200Z:
  "Parse ''20060102T150405Z'' ''20240301T120000Z'' =
   Inr \<lparr>unixNano = 1709294400000000000, tloc = UTC\<rparr>"
  by (simp add: scan_defs Date_UTC civil_defs)

lemma Parse_1300Z:
  "Parse ''20060102T150405Z'' ''20240301T130000Z'' =
   Inr \<lparr>unixNano = 1709298000000000000, tloc = UTC\<rparr>"
  by (simp add: scan_defs Date_UTC civil_defs)

lemma Parse_1100Z:
  "Parse ''20060102T150405Z'' ''20240301T110000Z'' =
   Inr \<lparr>unixNano = 1709290800000000000, tloc = UTC\<rparr>"
  by (simp add: scan_defs Date_UTC civil_defs)

lemma parseTimes_Z_Z:
  assumes "HasSuffix s ''Z''" and "HasSuffix t ''Z''"
    and "Parse ''20060102T150405Z'' s = Inr a" and "Parse ''20060102T150405Z'' t = Inr b"
  shows "parseTimes e (textProp ''DTSTART'' s) (Some (textProp ''DTEND'' t)) = Inr (a, b, False)"
  using assms
  by (simp add: parseTimes_def not_isAllDay_textProp Value_textProp parseICalTime_Z)

lemma props_ev_no_summary:
  "GetProperty ev_no_summary ComponentPropertyDtStart = Some (textProp ''DTSTART'' ''20240301T120000Z'')"
  "GetProperty ev_no_summary ComponentPropertyDtEnd = Some (textProp ''DTEND'' ''20240301T130000Z'')"
  "GetProperty ev_no_summary ComponentPropertySummary = None"
  by (simp_all add: ev_no_summary_def sample_defs)

lemma props_ev_uid_only:
  "GetProperty ev_uid_only ComponentPropertyDtStart = Some (textProp ''DTSTART'' ''20240301T100000Z'')"
  "GetProperty ev_uid_only ComponentPropertyDtEnd = Some (textProp ''DTEND'' ''20240301T110000Z'')"
  "GetProperty ev_uid_only ComponentPropertySummary = None"
  by (simp_all add: ev_uid_only_def sample_defs)

text \<open>
  Noon to 13:00 UTC on 1 March 2024 without a summary, between two complete events of
  that day: no result at all.
\<close>

theorem C3_absent_text_property_panics_witness:
  "GetProperty ev_no_summary ComponentPropertySummary = None
   \<and> parseEvent env_utc ev_no_summary
        (fst (targetWindow env_utc 2024 3 1)) (snd (targetWindow env_utc 2024 3 1)) = Panic
   \<and> caljsonHandler env_utc
        [VEvent (ev_timed ''20240301T100000Z''), VEvent ev_no_summary,
         VEvent (ev_timed ''20240301T080000Z'')]
        (fst (targetWindow env_utc 2024 3 1)) (snd (targetWindow env_utc 2024 3 1)) = Panic"
proof -
  let ?w0 = "fst (targetWindow env_utc 2024 3 1)"
  let ?w1 = "snd (targetWindow env_utc 2024 3 1)"
  let ?s = "\<lparr>unixNano = 1709294400000000000, tloc = UTC\<rparr>"
  let ?t = "\<lparr>unixNano = 1709298000000000000, tloc = UTC\<rparr>"
  have pt: "parseTimes env_utc (textProp ''DTSTART'' ''20240301T120000Z'')
              (GetProperty ev_no_summary ComponentPropertyDtEnd) = Inr (?s, ?t, False)"
    unfolding props_ev_no_summary(2)
    by (rule parseTimes_Z_Z) (simp_all add: HasSuffix_def Parse_1200Z Parse_1300Z)
  have a: "unixNano ?t > unixNano ?w0"
    by (simp add: window_utc_0301)
  have b: "unixNano ?s < unixNano ?w1"
    by (simp add: window_utc_0301)
  have c: "GetProperty ev_no_summary ComponentPropertyUniqueId = None
         \<or> GetProperty ev_no_summary ComponentPropertySummary = None
         \<or> GetProperty ev_no_summary ComponentPropertyDescription = None
         \<or> GetProperty ev_no_summary ComponentPropertyLocation = None"
    by (simp add: props_ev_no_summary(3))
  note th = C3_absent_text_property_panics [OF props_ev_no_summary(1) pt a b c,
      of "[VEvent (ev_timed ''20240301T100000Z'')]" "[VEvent (ev_timed ''20240301T080000Z'')]"]
  from th have "parseEvent env_utc ev_no_summary ?w0 ?w1 = Panic"
    by (rule conjunct1)
  moreover from th have "caljsonHandler env_utc
        [VEvent (ev_timed ''20240301T100000Z''), VEvent ev_no_summary,
         VEvent (ev_timed ''20240301T080000Z'')] ?w0 ?w1 = Panic"
    by simp
  ultimately show ?thesis
    using props_ev_no_summary(3) by (intro conjI)
qed

text \<open>
  Claim C1 says that a component whose start and end parse to \<open>S\<close> and \<open>E\<close> is returned
  as an event exactly when \<open>E\<close> is after the window's start and \<open>S\<close> before its end.
  The lemmas \<open>parseEvent_absent_iff\<close> and \<open>parseEvent_event_iff\<close> above give this for
  components that carry the four text properties. For the others the program does
  not return the event: the component below runs from 10:00 to 11:00 UTC on 1 March
  2024, inside the window of that day, and \<^verbatim>\<open>parseEvent\<close> panics.
\<close>

theorem C1_overlap_without_summary:
  "parseTimes env_utc (textProp ''DTSTART'' ''20240301T100000Z'')
     (Some (textProp ''DTEND'' ''20240301T110000Z'')) =
     Inr (\<lparr>unixNano = 1709287200000000000, tloc = UTC\<rparr>,
          \<lparr>unixNano = 1709290800000000000, tloc = UTC\<rparr>, False)
   \<and> targetWindow env_utc 2024 3 1 =
       (\<lparr>unixNano = 1709251200000000000, tloc = UTC\<rparr>,
        \<lparr>unixNano = 1709337600000000000, tloc = UTC\<rparr>)
   \<and> After \<lparr>unixNano = 1709290800000000000, tloc = UTC\<rparr> (fst (targetWindow env_utc 2024 3 1))
   \<and> Before \<lparr>unixNano = 1709287200000000000, tloc = UTC\<rparr> (snd (targetWindow env_utc 2024 3 1))
   \<and> parseEvent env_utc ev_uid_only
        (fst (targetWindow env_utc 2024 3 1)) (snd (targetWindow env_utc 2024 3 1)) = Panic"
proof -
  let ?w0 = "fst (targetWindow env_utc 2024 3 1)"
  let ?w1 = "snd (targetWindow env_utc 2024 3 1)"
  let ?s = "\<lparr>unixNano = 1709287200000000000, tloc = UTC\<rparr>"
  let ?t = "\<lparr>unixNano = 1709290800000000000, tloc = UTC\<rparr>"
  have pt: "parseTimes env_utc (textProp ''DTSTART'' ''20240301T100000Z'')
              (Some (textProp ''DTEND'' ''20240301T110000Z'')) = Inr (?s, ?t, False)"
    by (rule parseTimes_Z_Z) (simp_all add: HasSuffix_def Parse_1000Z Parse_1100Z)
  have a: "After ?t ?w0"
    by (simp add: window_utc_0301 After_def)
  have b: "Before ?s ?w1"
    by (simp add: window_utc_0301 Before_def)
  have "parseEvent env_utc ev_uid_only ?w0 ?w1 = Panic"
    unfolding parseEvent_Panic_iff [OF props_ev_uid_only(1) pt [folded props_ev_uid_only(2)]]
    using a b by (simp add: After_def Before_def props_ev_uid_only(3))
  with pt a b window_utc_0301 show ?thesis
    by (intro conjI)
qed


subsection \<open>All-day events and the local day\<close>

lemma parseTimes_ev_allday_0301:
  "parseTimes e (paramProp ''DTSTART'' ''VALUE'' [''DATE''] ''20240301'') None =
   Inr (\<lparr>unixNano = 1709251200000000000, tloc = UTC\<rparr>,
        \<lparr>unixNano = 1709337600000000000, tloc = UTC\<rparr>, True)"
  by (simp add: parseTimes_no_end isAllDay_sample Value_paramProp Parse_20240301 Add_def Hour_def)

lemma parseEvent_ev_allday_0301:
  "parseEvent e ev_allday_0301 w0 w1 =
   (if unixNano w0 < 1709337600000000000 \<and> 1709251200000000000 < unixNano w1
    then Ok (Some \<lparr>UID = ''uid-1'', Summary = ''Standup'', Description = ''Daily'',
                   Location = ''Room 1'',
                   Start = \<lparr>unixNano = 1709251200000000000, tloc = UTC\<rparr>,
                   End = \<lparr>unixNano = 1709337600000000000, tloc = UTC\<rparr>, AllDay = True\<rparr>)
    else Ok None)"
proof -
  have props: "GetProperty ev_allday_0301 ComponentPropertyUniqueId = Some (textProp ''UID'' ''uid-1'')"
    "GetProperty ev_allday_0301 ComponentPropertySummary = Some (textProp ''SUMMARY'' ''Standup'')"
    "GetProperty ev_allday_0301 ComponentPropertyDescription = Some (textProp ''DESCRIPTION'' ''Daily'')"
    "GetProperty ev_allday_0301 ComponentPropertyLocation = Some (textProp ''LOCATION'' ''Room 1'')"
    by (simp_all add: ev_allday_0301_def sample_defs)
  have adj: "adjustTZ e (paramProp ''DTSTART'' ''VALUE'' [''DATE''] ''20240301'') t = t" for t
    by (simp add: adjustTZ_def paramProp_def)
  show ?thesis
    unfolding parseEvent_times [OF start_ev_allday_0301
        parseTimes_ev_allday_0301 [of e, folded end_ev_allday_0301]]
    by (simp add: props adj end_ev_allday_0301 makeEvent_def Value_textProp)
qed

lemma Date_FixedZone_march:
  assumes "- 86400 < off" and "off < 86400"
  shows "Date 2024 3 1 0 0 0 0 (FixedZone n off) =
           \<lparr>unixNano = (1709251200 - off) * 1000000000, tloc = FixedZone n off\<rparr>"
    and "Date 2024 3 2 0 0 0 0 (FixedZone n off) =
           \<lparr>unixNano = (1709337600 - off) * 1000000000, tloc = FixedZone n off\<rparr>"
  using assms
  by (simp_all add: Date_def civil_defs FixedZone_def alpha_def omega_def Let_def)

text \<open>
  The sample all-day event of 1 March 2024 in a process whose local zone has one
  offset: it is in the window of 1 March; it is outside the window of 2 March only
  if the zone is not east of UTC.
\<close>

lemma allday_0301_fixed_zone:
  assumes "Local e = FixedZone n off" and "- 86400 < off" and "off < 86400"
  shows "\<exists>ev. parseEvent e ev_allday_0301
                (fst (targetWindow e 2024 3 1)) (snd (targetWindow e 2024 3 1)) = Ok (Some ev)"
    and "parseEvent e ev_allday_0301
           (fst (targetWindow e 2024 3 2)) (snd (targetWindow e 2024 3 2)) = Ok None
         \<longleftrightarrow> off \<le> 0"
  using assms(2,3)
  by (simp_all add: parseEvent_ev_allday_0301 targetWindow_def assms(1)
      Date_FixedZone_march Add_def Hour_def)

text \<open>
  Claim C6 says that for every local zone the all-day event of 1 March 2024 without
  an end ends where 2 March starts, is in the window of 1 March and is not in the
  window of 2 March. The end is as claimed, and \<open>allday_0301_fixed_zone\<close> gives the
  window of 1 March. The window of 2 March fails east of UTC: the dates are parsed
  in UTC, the window is cut at local midnight. In a process one hour east of UTC
  the window of 2 March starts at 23:00 UTC on 1 March, the event ends an hour
  later, and \<^verbatim>\<open>parseEvent\<close> returns it.
\<close>

theorem C6_allday_0301_in_window_of_march_2:
  "Local env_cet = FixedZone ''CET'' 3600
   \<and> Parse ''20060102'' ''20240302'' = Inr \<lparr>unixNano = 1709337600000000000, tloc = UTC\<rparr>
   \<and> targetWindow env_cet 2024 3 2 =
       (\<lparr>unixNano = 1709334000000000000, tloc = FixedZone ''CET'' 3600\<rparr>,
        \<lparr>unixNano = 1709420400000000000, tloc = FixedZone ''CET'' 3600\<rparr>)
   \<and> parseEvent env_cet ev_allday_0301
        (fst (targetWindow env_cet 2024 3 2)) (snd (targetWindow env_cet 2024 3 2)) =
       Ok (Some \<lparr>UID = ''uid-1'', Summary = ''Standup'', Description = ''Daily'',
                 Location = ''Room 1'',
                 Start = \<lparr>unixNano = 1709251200000000000, tloc = UTC\<rparr>,
                 End = \<lparr>unixNano = 1709337600000000000, tloc = UTC\<rparr>, AllDay = True\<rparr>)"
proof -
  have l: "Local env_cet = FixedZone ''CET'' 3600"
    by (simp add: env_cet_def)
  have w: "targetWindow env_cet 2024 3 2 =
       (\<lparr>unixNano = 1709334000000000000, tloc = FixedZone ''CET'' 3600\<rparr>,
        \<lparr>unixNano = 1709420400000000000, tloc = FixedZone ''CET'' 3600\<rparr>)"
    by (simp add: targetWindow_def l Date_FixedZone_march Add_def Hour_def)
  have "parseEvent env_cet ev_allday_0301
        (fst (targetWindow env_cet 2024 3 2)) (snd (targetWindow env_cet 2024 3 2)) =
       Ok (Some \<lparr>UID = ''uid-1'', Summary = ''Standup'', Description = ''Daily'',
                 Location = ''Room 1'',
                 Start = \<lparr>unixNano = 1709251200000000000, tloc = UTC\<rparr>,
                 End = \<lparr>unixNano = 1709337600000000000, tloc = UTC\<rparr>, AllDay = True\<rparr>)"
    by (simp add: parseEvent_ev_allday_0301 w)
  with l w Parse_20240302 show ?thesis
    by (intro conjI)
qed

end
